theory Spec2Isabelle
  imports Main "HOL-Library.AList"
begin

section \<open>JavaScript values\<close>

text \<open>
  The values that flow through the backend are SQLite column values and JSON request
  fields: \<open>undefined\<close> (a missing property), \<open>null\<close> (SQL NULL), booleans, numbers,
  strings, and arrays in a request body. Numbers are only compared and tested for
  truthiness in the code modelled here, so they are integers. On the primitive values the
  strict equality \<open>===\<close> is equality of the datatype; the code never compares two arrays.
\<close>

datatype jsval = Undefined | Null | Bool bool | Num int | Str string | Arr "jsval list"

text \<open>JavaScript truthiness, as used by \<open>!x\<close>, \<open>x || y\<close>, \<open>x && y\<close> and \<open>if (x)\<close>.\<close>

fun truthy :: "jsval \<Rightarrow> bool" where
  "truthy Undefined = False"
| "truthy Null = False"
| "truthy (Bool b) = b"
| "truthy (Num n) = (n \<noteq> 0)"
| "truthy (Str s) = (s \<noteq> [])"
| "truthy (Arr xs) = True"

text \<open>\<open>a || b\<close>: the first operand when it is truthy, else the second.\<close>

definition js_or :: "jsval \<Rightarrow> jsval \<Rightarrow> jsval" where
  "js_or a b = (if truthy a then a else b)"

text \<open>
  A plain object is an association list of its own properties, in insertion order;
  reading a property that is not there gives \<open>undefined\<close>. This is the reading of the
  request bodies, filters, rows and update data, under property names that the code
  writes out (\<open>name\<close>, \<open>status\<close>, \<open>teamId\<close> and so on) or takes from the object's own keys,
  none of which an object inherits.
\<close>

type_synonym obj = "(string \<times> jsval) list"

definition obj_get :: "obj \<Rightarrow> string \<Rightarrow> jsval" where
  "obj_get ob k = (case map_of ob k of None \<Rightarrow> Undefined | Some v \<Rightarrow> v)"

text \<open>\<open>Array.prototype.join\<close> on an array of strings.\<close>

fun join :: "string \<Rightarrow> string list \<Rightarrow> string" where
  "join sep [] = []"
| "join sep [x] = x"
| "join sep (x # y # ys) = x @ sep @ join sep (y # ys)"

section \<open>The runtime\<close>

text \<open>
  What the code gets from the language and from the SQLite driver is a parameter of the
  model.

  \<^item> \<open>js_String v\<close> is \<open>String(v)\<close>, the conversion that a template literal and a computed
    property name apply to a value that is not a string; \<open>JSON_stringify v\<close> is
    \<open>JSON.stringify(v)\<close>.
  \<^item> \<open>inherited k\<close> is what reading \<open>obj[k]\<close> gives on an object literal that has no own
    property \<open>k\<close>: the property of that name on \<open>Object.prototype\<close>, such as
    \<open>constructor\<close> or \<open>toString\<close>, or nothing.
  \<^item> \<open>inherited_prop k1 k2\<close> is what reading the property \<open>k2\<close> of the value inherited
    under \<open>k1\<close> gives.
  \<^item> \<open>stored_text v\<close> and \<open>stored_real v\<close> are the values that a column of TEXT and of
    REAL affinity holds after \<open>v\<close> was bound to a statement that writes it.

  A property value is classified by what the permission check does with it: nothing or
  a falsy value, an array of strings, a string, any other truthy value (a function, an
  object, a number: it has no \<open>includes\<close> to call), or a read that throws.
\<close>

datatype js_error = TypeError

datatype pval = Missing | Perms "string list" | Text string | Foreign | Throws

record builtins =
  js_String :: "jsval \<Rightarrow> string"
  JSON_stringify :: "jsval \<Rightarrow> string"
  inherited :: "string \<Rightarrow> pval"
  inherited_prop :: "string \<Rightarrow> string \<Rightarrow> pval"
  stored_text :: "jsval \<Rightarrow> jsval"
  stored_real :: "jsval \<Rightarrow> jsval"

text \<open>A value as a string in a template literal or as a property name.\<close>

definition template :: "builtins \<Rightarrow> jsval \<Rightarrow> string" where
  "template B v = (case v of Str s \<Rightarrow> s | _ \<Rightarrow> js_String B v)"

text \<open>\<open>String.prototype.includes\<close>: the first string occurs in the second.\<close>

definition is_substring :: "string \<Rightarrow> string \<Rightarrow> bool" where
  "is_substring p t = list_ex (\<lambda>i. take (length p) (drop i t) = p) [0..<Suc (length t)]"

section \<open>Responses\<close>

text \<open>
  What a handler sends with \<open>res.status(code).json({success, message, errors, data})\<close>:
  the HTTP status and the body. \<open>res.json\<close> alone sends status 200. The error replies of
  the backend all have the shape \<open>{success: false, message}\<close>.
\<close>

record 'a response =
  res_status :: nat
  res_success :: bool
  res_message :: string
  res_errors :: "string list"
  res_data :: "'a option"

definition reply :: "nat \<Rightarrow> string \<Rightarrow> 'a response" where
  "reply code msg =
     \<lparr>res_status = code, res_success = False, res_message = msg, res_errors = [],
      res_data = None\<rparr>"

definition validation_reply :: "string list \<Rightarrow> 'a response" where
  "validation_reply errs =
     \<lparr>res_status = 400, res_success = False, res_message = ''Validation errors'',
      res_errors = errs, res_data = None\<rparr>"

definition ok_reply :: "nat \<Rightarrow> string \<Rightarrow> 'a option \<Rightarrow> 'a response" where
  "ok_reply code msg d =
     \<lparr>res_status = code, res_success = True, res_message = msg, res_errors = [],
      res_data = d\<rparr>"

section \<open>Role-based access control (middleware/rbac.js)\<close>

text \<open>
  The principal is the row that the authentication middleware attaches to the request:
  \<open>SELECT id, name, email, role, teamId, department, phone, isActive FROM users\<close>.
\<close>

record principal =
  p_id :: jsval
  p_name :: jsval
  p_email :: jsval
  p_role :: jsval
  p_teamId :: jsval
  p_department :: jsval
  p_phone :: jsval
  p_isActive :: jsval

text \<open>The static matrix, role by role and resource by resource, as the source lists it.\<close>

definition ROLE_PERMISSIONS :: "(string \<times> (string \<times> string list) list) list" where
  "ROLE_PERMISSIONS =
    [(''admin'',
       [(''customers'', [''create'', ''read'', ''update'', ''delete'']),
        (''leads'', [''create'', ''read'', ''update'', ''delete'']),
        (''users'', [''create'', ''read'', ''update'', ''delete'']),
        (''teams'', [''create'', ''read'', ''update'', ''delete'']),
        (''activities'', [''create'', ''read'', ''update'', ''delete'']),
        (''reports'', [''read'', ''export''])]),
     (''manager'',
       [(''customers'', [''create'', ''read'', ''update'', ''delete'']),
        (''leads'', [''create'', ''read'', ''update'', ''delete'']),
        (''users'', [''read'']),
        (''teams'', [''read'', ''update'']),
        (''activities'', [''create'', ''read'', ''update'', ''delete'']),
        (''reports'', [''read'', ''export''])]),
     (''sales_rep'',
       [(''customers'', [''create'', ''read'', ''update'']),
        (''leads'', [''create'', ''read'', ''update'']),
        (''users'', [''read'']),
        (''teams'', [''read'']),
        (''activities'', [''create'', ''read'', ''update'']),
        (''reports'', [''read''])])]"

text \<open>
  \<open>resourcePermissions.includes(permission)\<close> after the test \<open>!resourcePermissions\<close>: false
  for a falsy value, membership for an array, occurrence for a string; calling
  \<open>includes\<close> on any other value throws, since there is no such function.
\<close>

definition falsy :: "pval \<Rightarrow> bool" where
  "falsy v = (v = Missing \<or> v = Text [])"

definition includes_permission :: "pval \<Rightarrow> string \<Rightarrow> js_error + bool" where
  "includes_permission v permission =
    (if v = Throws then Inl TypeError
     else if falsy v then Inr False
     else (case v of
             Perms ps \<Rightarrow> Inr (permission \<in> set ps)
           | Text t \<Rightarrow> Inr (is_substring permission t)
           | _ \<Rightarrow> Inl TypeError))"

text \<open>
  \<open>hasPermission\<close>. \<open>ROLE_PERMISSIONS[user.role]\<close> converts the role to a property name
  and reads it: the entry of the matrix when the name is a role, else whatever the
  literal inherits under that name. \<open>rolePermissions[resource]\<close> is read the same way,
  from the entry or from the inherited value. The result is \<open>Inl\<close> when the call throws.
\<close>

definition hasPermission :: "builtins \<Rightarrow> principal option \<Rightarrow> string \<Rightarrow> string \<Rightarrow> js_error + bool" where
  "hasPermission B user resource permission =
    (case user of
       None \<Rightarrow> Inr False
     | Some u \<Rightarrow>
         if \<not> truthy (p_role u) then Inr False
         else (case map_of ROLE_PERMISSIONS (template B (p_role u)) of
                 Some rolePermissions \<Rightarrow>
                   (case map_of rolePermissions resource of
                      Some resourcePermissions \<Rightarrow>
                        includes_permission (Perms resourcePermissions) permission
                    | None \<Rightarrow> includes_permission (inherited B resource) permission)
               | None \<Rightarrow>
                   if inherited B (template B (p_role u)) = Throws then Inl TypeError
                   else if falsy (inherited B (template B (p_role u))) then Inr False
                   else includes_permission
                          (inherited_prop B (template B (p_role u)) resource) permission))"

text \<open>
  The record handed to \<open>canAccessRecord\<close> is the row selected by \<open>requireRecordAccess\<close>;
  a column that the query does not select is \<open>undefined\<close>.
\<close>

record access_record =
  ownerId :: jsval
  teamId :: jsval
  assignedTo :: jsval

definition canAccessRecord :: "principal option \<Rightarrow> access_record option \<Rightarrow> bool" where
  "canAccessRecord user rec =
    (case (user, rec) of
       (Some u, Some r) \<Rightarrow>
         if p_role u = Str ''admin'' then True
         else if p_role u = Str ''manager'' \<and> teamId r = p_teamId u then True
         else if ownerId r = p_id u then True
         else if assignedTo r = p_id u then True
         else False
     | _ \<Rightarrow> False)"

text \<open>\<open>getDataFilter\<close> returns \<open>null\<close> without a user, else an object.\<close>

definition getDataFilter :: "principal option \<Rightarrow> obj option" where
  "getDataFilter user =
    (case user of
       None \<Rightarrow> None
     | Some u \<Rightarrow>
         if p_role u = Str ''admin'' then Some []
         else if p_role u = Str ''manager'' then Some [(''teamId'', p_teamId u)]
         else Some [(''ownerId'', p_id u)])"

text \<open>
  \<open>buildWhereClause(baseWhere, filter, params, tableAlias)\<close> returns the SQL text of the
  WHERE clause and the parameters bound to its placeholders.
\<close>

definition buildWhereClause :: "string \<Rightarrow> obj \<Rightarrow> jsval list \<Rightarrow> string \<Rightarrow> string \<times> jsval list" where
  "buildWhereClause baseWhere dataFilter params tableAlias =
    (let conditions0 = (if baseWhere \<noteq> [] then [baseWhere] else []);
         (conditions1, params1) =
           (if truthy (obj_get dataFilter ''ownerId'')
            then (conditions0 @ [tableAlias @ ''.ownerId = ?''], params @ [obj_get dataFilter ''ownerId''])
            else (conditions0, params));
         (conditions2, params2) =
           (if truthy (obj_get dataFilter ''teamId'')
            then (conditions1 @ [tableAlias @ ''.teamId = ?''], params1 @ [obj_get dataFilter ''teamId''])
            else (conditions1, params1));
         whereClause = (if length conditions2 > 0 then ''WHERE '' @ join '' AND '' conditions2 else [])
     in (whereClause, params2))"

text \<open>
  \<open>requirePermission(resource, permission)\<close>: \<open>Inr None\<close> stands for \<open>next()\<close>, the
  request goes on to the following handler; \<open>Inl\<close> is an exception that leaves the
  middleware, which the global error handler of the application answers.
\<close>

definition requirePermission ::
  "builtins \<Rightarrow> string \<Rightarrow> string \<Rightarrow> principal option \<Rightarrow> js_error + unit response option" where
  "requirePermission B resource permission user =
    (if user = None then Inr (Some (reply 401 ''Authentication required''))
     else case hasPermission B user resource permission of
       Inl e \<Rightarrow> Inl e
     | Inr allowed \<Rightarrow>
         if \<not> allowed
         then Inr (Some (reply 403
                (''Insufficient permissions. Required: '' @ permission @ '' on '' @ resource)))
         else Inr None)"

text \<open>
  \<open>applyDataFilter\<close>: either a 401 response, or the request goes on with
  \<open>req.dataFilter\<close> set.
\<close>

definition applyDataFilter :: "principal option \<Rightarrow> unit response + obj option" where
  "applyDataFilter user =
    (if user = None then Inl (reply 401 ''Authentication required'')
     else Inr (getDataFilter user))"


section \<open>The relational store (models/database.js)\<close>

text \<open>
  One record type per table of \<open>createTables\<close>, one field per column. The customers,
  leads and teams columns hold whatever value was bound to the statement, so they are
  JavaScript values (\<open>Null\<close> for SQL NULL). The columns of the users and
  refresh-token tables are typed by their declaration: a nullable column is an option.
  The expiry of a refresh token, which the code writes with \<open>toISOString\<close> and compares
  in SQL, is represented by its instant in milliseconds, the order of the ISO texts
  being the order of the instants.
\<close>

record user_row =
  u_id :: string
  u_name :: string
  u_email :: string
  u_password :: string
  u_role :: string
  u_teamId :: "string option"
  u_department :: "string option"
  u_phone :: "string option"
  u_isActive :: "int option"
  u_loginAttempts :: "int option"
  u_lockUntil :: "int option"
  u_createdBy :: "string option"
  u_updatedBy :: "string option"
  u_createdAt :: string
  u_updatedAt :: string
  u_lastLoginAt :: "string option"

record team_row =
  t_id :: jsval
  t_name :: jsval
  t_description :: jsval
  t_managerId :: jsval
  t_department :: jsval
  t_isActive :: jsval

record customer =
  c_id :: jsval
  c_name :: jsval
  c_email :: jsval
  c_phone :: jsval
  c_company :: jsval
  c_status :: jsval
  c_tags :: jsval
  c_notes :: jsval
  c_lastContactDate :: jsval
  c_ownerId :: jsval
  c_teamId :: jsval
  c_assignedTo :: jsval
  c_source :: jsval
  c_value :: jsval
  c_industry :: jsval
  c_createdBy :: jsval
  c_updatedBy :: jsval
  c_createdAt :: jsval
  c_updatedAt :: jsval

record lead =
  l_id :: jsval
  l_title :: jsval
  l_description :: jsval
  l_customerId :: jsval
  l_status :: jsval
  l_value :: jsval
  l_expectedCloseDate :: jsval
  l_priority :: jsval
  l_source :: jsval
  l_ownerId :: jsval
  l_teamId :: jsval
  l_assignedTo :: jsval
  l_createdBy :: jsval
  l_updatedBy :: jsval
  l_createdAt :: jsval
  l_updatedAt :: jsval

record token_row =
  rt_id :: string
  rt_userId :: string
  rt_token :: string
  rt_expiresAt :: int

text \<open>
  The change-set of an activity before \<open>JSON.stringify\<close>: nothing (\<open>null\<close> is stored),
  \<open>{created: newData}\<close>, the per-field \<open>{field: {from, to}}\<close> entries of an update in the
  order in which they were added, or \<open>{deleted: oldData}\<close>.
\<close>

datatype changes =
    NoChanges
  | Created obj
  | Updated "(string \<times> jsval \<times> jsval) list"
  | Deleted obj

record activity =
  a_id :: string
  a_type :: string
  a_resourceType :: string
  a_resourceId :: jsval
  a_description :: string
  a_changes :: changes
  a_userId :: jsval
  a_ipAddress :: jsval
  a_userAgent :: jsval
  a_createdAt :: string

text \<open>
  The store: its tables as lists of rows, and the \<open>PRAGMA foreign_keys\<close> setting of the
  connection. The update of a customer and the insert of an activity fail where they
  break a constraint of their table. The other statements are total on this state: where
  SQLite would reject one of them (an identifier used twice, an I/O error), which the
  handlers answer with status 500, is outside the model.
\<close>

record db =
  users :: "user_row list"
  teams :: "team_row list"
  customers :: "customer list"
  leads :: "lead list"
  activities :: "activity list"
  refresh_tokens :: "token_row list"
  foreign_keys :: bool

text \<open>\<open>database.get\<close>: the first row that matches, \<open>undefined\<close> (\<open>None\<close>) when none does.\<close>

definition db_get :: "('r \<Rightarrow> bool) \<Rightarrow> 'r list \<Rightarrow> 'r option" where
  "db_get cond rows = find cond rows"

text \<open>A nullable text column as a JavaScript value: \<open>null\<close> for NULL.\<close>

definition js_of :: "string option \<Rightarrow> jsval" where
  "js_of v = (case v of None \<Rightarrow> Null | Some s \<Rightarrow> Str s)"

subsection \<open>requireRecordAccess\<close>

text \<open>
  The four queries of the switch. The customer and lead queries select
  \<open>ownerId, teamId, assignedTo\<close>; the user query selects \<open>id as ownerId, teamId\<close>; the
  team query selects \<open>managerId as ownerId\<close>. The outer \<open>None\<close> is the default branch of
  the switch, the inner one is a query without a row.
\<close>

definition select_record :: "db \<Rightarrow> string \<Rightarrow> string \<Rightarrow> access_record option option" where
  "select_record d resourceType resourceId =
    (if resourceType = ''customer'' then
       Some (map_option
         (\<lambda>c. \<lparr>ownerId = c_ownerId c, teamId = c_teamId c, assignedTo = c_assignedTo c\<rparr>)
         (db_get (\<lambda>c. c_id c = Str resourceId) (customers d)))
     else if resourceType = ''lead'' then
       Some (map_option
         (\<lambda>l. \<lparr>ownerId = l_ownerId l, teamId = l_teamId l, assignedTo = l_assignedTo l\<rparr>)
         (db_get (\<lambda>l. l_id l = Str resourceId) (leads d)))
     else if resourceType = ''user'' then
       Some (map_option
         (\<lambda>u. \<lparr>ownerId = Str (u_id u), teamId = js_of (u_teamId u), assignedTo = Undefined\<rparr>)
         (db_get (\<lambda>u. u_id u = resourceId) (users d)))
     else if resourceType = ''team'' then
       Some (map_option
         (\<lambda>t. \<lparr>ownerId = t_managerId t, teamId = Undefined, assignedTo = Undefined\<rparr>)
         (db_get (\<lambda>t. t_id t = Str resourceId) (teams d)))
     else None)"

text \<open>
  The middleware answers with a response (\<open>Inl\<close>) or calls \<open>next()\<close> with the record
  attached to the request (\<open>Inr\<close>). \<open>req.params.id\<close> is a string or missing.
\<close>

definition requireRecordAccess ::
  "string \<Rightarrow> db \<Rightarrow> principal option \<Rightarrow> string option \<Rightarrow> unit response + access_record" where
  "requireRecordAccess resourceType d user paramId =
    (if user = None then Inl (reply 401 ''Authentication required'')
     else case paramId of
       None \<Rightarrow> Inl (reply 400 ''Resource ID required'')
     | Some resourceId \<Rightarrow>
         if resourceId = [] then Inl (reply 400 ''Resource ID required'')
         else (case select_record d resourceType resourceId of
                 None \<Rightarrow> Inl (reply 400 ''Invalid resource type'')
               | Some None \<Rightarrow> Inl (reply 404 (resourceType @ '' not found''))
               | Some (Some record) \<Rightarrow>
                   if \<not> canAccessRecord user (Some record)
                   then Inl (reply 403 ''Access denied to this resource'')
                   else Inr record))"

section \<open>Audit trail (utils/logger.js)\<close>

text \<open>
  What a handler reads from its environment while it runs: the clock, as \<open>Date.now()\<close>
  and as \<open>new Date().toISOString()\<close>, the address and user agent of the request, and
  the identifiers that \<open>uuidv4()\<close> returns to it. A handler reads the clock once.
\<close>

record ctx =
  now_ms :: int
  now_iso :: string
  req_ip :: jsval
  req_userAgent :: jsval
  uuid_a :: string
  uuid_b :: string

text \<open>
  A column declared \<open>REFERENCES users(id)\<close> holds NULL or the id of a user, when foreign
  keys are enabled.
\<close>

definition references_user :: "db \<Rightarrow> jsval \<Rightarrow> bool" where
  "references_user d v = (v = Null \<or> list_ex (\<lambda>u. Str (u_id u) = v) (users d))"

text \<open>
  The constraints of the activities table on the row that \<open>logActivity\<close> inserts: \<open>type\<close>
  and \<open>resourceType\<close> are each one of the listed texts, \<open>resourceId\<close> and \<open>userId\<close> are
  NOT NULL, and with foreign keys enabled \<open>userId\<close> is the id of a user. A parameter that
  is \<open>undefined\<close> leaves the column NULL. The user id that the callers pass is the \<open>id\<close>
  column of a user row, a text; a value that is neither a text nor missing is taken to
  be the id of no user.
\<close>

definition insert_violates :: "string \<Rightarrow> string \<Rightarrow> jsval \<Rightarrow> jsval \<Rightarrow> db \<Rightarrow> bool" where
  "insert_violates type resourceType resourceId userId d =
     (if type \<in> set [''create'', ''update'', ''delete'', ''login'', ''logout'', ''assign'']
      then (if resourceType \<in> set [''user'', ''customer'', ''lead'', ''team'']
            then (if resourceId \<in> {Null, Undefined} then True
                  else if userId \<in> {Null, Undefined} then True
                  else if foreign_keys d then \<not> references_user d userId
                  else False)
            else True)
      else True)"

text \<open>
  \<open>logActivity\<close> inserts one row; \<open>ipAddress || null\<close> and \<open>userAgent || null\<close> are stored.
  A failure of the insert is caught and logged, never raised: the store is then as it
  was, and the caller goes on.
\<close>

definition logActivity ::
  "string \<Rightarrow> ctx \<Rightarrow> string \<Rightarrow> string \<Rightarrow> jsval \<Rightarrow> string \<Rightarrow> changes \<Rightarrow> jsval \<Rightarrow> db \<Rightarrow> db" where
  "logActivity activityId cx type resourceType resourceId description chg userId d =
     (if insert_violates type resourceType resourceId userId d then d
      else d\<lparr>activities := activities d @
        [\<lparr>a_id = activityId, a_type = type, a_resourceType = resourceType,
          a_resourceId = resourceId, a_description = description, a_changes = chg,
          a_userId = userId, a_ipAddress = js_or (req_ip cx) Null,
          a_userAgent = js_or (req_userAgent cx) Null, a_createdAt = now_iso cx\<rparr>]\<rparr>)"

text \<open>
  The update branch of \<open>auditRecordChange\<close>: for each key of \<open>newData\<close>, in order, the
  assignment \<open>changes[key] = {from: oldData[key], to: newData[key]}\<close> when the two values
  are not strictly equal.
\<close>

definition diffChanges :: "obj \<Rightarrow> obj \<Rightarrow> (string \<times> jsval \<times> jsval) list" where
  "diffChanges oldData newData =
     foldl (\<lambda>chg key.
              if obj_get oldData key \<noteq> obj_get newData key
              then AList.update key (obj_get oldData key, obj_get newData key) chg
              else chg)
           [] (map fst newData)"

text \<open>
  \<open>auditRecordChange\<close>. \<open>oldData\<close> and \<open>newData\<close> are optional; reading a property of a
  missing one throws, which is the result \<open>None\<close>. The empty change-set \<open>{}\<close> of the
  default branch is \<open>Updated []\<close>.
\<close>

definition auditRecordChange ::
  "builtins \<Rightarrow> ctx \<Rightarrow> string \<Rightarrow> string \<Rightarrow> string \<Rightarrow> obj option \<Rightarrow> obj option \<Rightarrow> jsval \<Rightarrow> db
     \<Rightarrow> db option" where
  "auditRecordChange B cx type resourceType resourceId oldData newData userId d =
    (if type = ''create'' then
       (case newData of
          None \<Rightarrow> None
        | Some new \<Rightarrow>
            Some (logActivity (uuid_b cx) cx type resourceType (Str resourceId)
                    (''Created '' @ resourceType @ '' '' @ [CHR 0x22] @
                       template B (js_or (js_or (obj_get new ''name'') (obj_get new ''title''))
                                     (Str resourceId)) @ [CHR 0x22])
                    (Created new) userId d))
     else if type = ''update'' then
       (case (oldData, newData) of
          (Some old, Some new) \<Rightarrow>
            let chg = diffChanges old new;
                changedFields = map fst chg
            in Some (logActivity (uuid_b cx) cx type resourceType (Str resourceId)
                      (''Updated '' @ resourceType @ '' '' @ [CHR 0x22] @
                         template B (js_or (js_or (obj_get new ''name'') (obj_get new ''title''))
                                       (Str resourceId)) @ [CHR 0x22] @
                         '' - changed: '' @ join '', '' changedFields)
                      (Updated chg) userId d)
        | _ \<Rightarrow> None)
     else if type = ''delete'' then
       (case oldData of
          None \<Rightarrow> None
        | Some old \<Rightarrow>
            Some (logActivity (uuid_b cx) cx type resourceType (Str resourceId)
                    (''Deleted '' @ resourceType @ '' '' @ [CHR 0x22] @
                       template B (js_or (js_or (obj_get old ''name'') (obj_get old ''title''))
                                     (Str resourceId)) @ [CHR 0x22])
                    (Deleted old) userId d))
     else Some (logActivity (uuid_b cx) cx type resourceType (Str resourceId)
                  (type @ '' '' @ resourceType @ '' '' @ resourceId)
                  (Updated []) userId d))"

section \<open>Credentials and tokens (controllers/authController.js)\<close>

text \<open>The settings of \<open>config.jwt\<close> and \<open>config.security\<close> that the controller reads.\<close>

record config =
  jwt_secret :: string
  jwt_refreshSecret :: string
  jwt_expiresIn :: string
  jwt_refreshExpiresIn :: string
  maxLoginAttempts :: int
  lockTime :: int

text \<open>
  The libraries \<open>bcryptjs\<close> and \<open>jsonwebtoken\<close> are parameters of the model:
  \<open>bcrypt_compare password hash\<close>, \<open>jwt_sign payload secret expiresIn now\<close>, and
  \<open>jwt_verify token secret now\<close>, which is \<open>None\<close> where \<open>jwt.verify\<close> throws.
\<close>

record payload =
  pl_userId :: string
  pl_email :: string
  pl_role :: string

record lib =
  bcrypt_compare :: "string \<Rightarrow> string \<Rightarrow> bool"
  jwt_sign :: "payload \<Rightarrow> string \<Rightarrow> string \<Rightarrow> int \<Rightarrow> string"
  jwt_verify :: "string \<Rightarrow> string \<Rightarrow> int \<Rightarrow> payload option"

definition generateTokens :: "lib \<Rightarrow> config \<Rightarrow> int \<Rightarrow> string \<Rightarrow> string \<Rightarrow> string \<Rightarrow> string \<times> string" where
  "generateTokens L cfg now uid mail rl =
    (let pl = \<lparr>pl_userId = uid, pl_email = mail, pl_role = rl\<rparr>;
         accessToken = jwt_sign L pl (jwt_secret cfg) (jwt_expiresIn cfg) now;
         refreshToken = jwt_sign L pl (jwt_refreshSecret cfg) (jwt_refreshExpiresIn cfg) now
     in (accessToken, refreshToken))"

text \<open>Insert the token with a seven-day expiry, then delete the rows that have expired.\<close>

definition storeRefreshToken :: "string \<Rightarrow> int \<Rightarrow> string \<Rightarrow> string \<Rightarrow> db \<Rightarrow> db" where
  "storeRefreshToken tokenId now uid tok d =
    (let expiresAt = now + 7 * 24 * 60 * 60 * 1000;
         inserted = refresh_tokens d @
           [\<lparr>rt_id = tokenId, rt_userId = uid, rt_token = tok, rt_expiresAt = expiresAt\<rparr>]
     in d\<lparr>refresh_tokens := filter (\<lambda>r. \<not> rt_expiresAt r < now) inserted\<rparr>)"

definition removeRefreshToken :: "string \<Rightarrow> db \<Rightarrow> db" where
  "removeRefreshToken tok d =
     d\<lparr>refresh_tokens := filter (\<lambda>r. rt_token r \<noteq> tok) (refresh_tokens d)\<rparr>"

text \<open>\<open>user.lockUntil && user.lockUntil > Date.now()\<close>: NULL and 0 are falsy.\<close>

definition isAccountLocked :: "user_row \<Rightarrow> int \<Rightarrow> bool" where
  "isAccountLocked user now =
    (case u_lockUntil user of None \<Rightarrow> False | Some l \<Rightarrow> l \<noteq> 0 \<and> l > now)"

text \<open>The failure counter \<open>user.loginAttempts || 0\<close>: 0 for NULL.\<close>

definition attempts_of :: "user_row \<Rightarrow> int" where
  "attempts_of u = (case u_loginAttempts u of None \<Rightarrow> 0 | Some a \<Rightarrow> a)"

text \<open>
  \<open>incrementLoginAttempts\<close> reads the row again by id; were there none, reading
  \<open>user.loginAttempts\<close> would throw (\<open>None\<close>).
\<close>

definition incrementLoginAttempts :: "config \<Rightarrow> int \<Rightarrow> string \<Rightarrow> db \<Rightarrow> db option" where
  "incrementLoginAttempts cfg now uid d =
    (case db_get (\<lambda>u. u_id u = uid) (users d) of
       None \<Rightarrow> None
     | Some user \<Rightarrow>
         let attempts = attempts_of user + 1;
             lockUntil = (if attempts \<ge> maxLoginAttempts cfg then Some (now + lockTime cfg) else None)
         in Some (d\<lparr>users := map (\<lambda>u. if u_id u = uid
                     then u\<lparr>u_loginAttempts := Some attempts, u_lockUntil := lockUntil\<rparr>
                     else u) (users d)\<rparr>))"

definition resetLoginAttempts :: "string \<Rightarrow> db \<Rightarrow> db" where
  "resetLoginAttempts uid d =
     d\<lparr>users := map (\<lambda>u. if u_id u = uid
            then u\<lparr>u_loginAttempts := Some 0, u_lockUntil := None\<rparr> else u) (users d)\<rparr>"

text \<open>The request body of the login, after the validators have passed it.\<close>

record login_body =
  lb_email :: string
  lb_password :: string

text \<open>The data of a successful login or refresh: the user object and the two tokens.\<close>

record login_data =
  ld_user :: obj
  ld_accessToken :: string
  ld_refreshToken :: string

text \<open>A nullable integer column as a JavaScript value.\<close>

definition js_of_int :: "int option \<Rightarrow> jsval" where
  "js_of_int v = (case v of None \<Rightarrow> Null | Some n \<Rightarrow> Num n)"

text \<open>The row without \<open>password\<close>, \<open>loginAttempts\<close> and \<open>lockUntil\<close>.\<close>

definition userWithoutSensitiveData :: "user_row \<Rightarrow> obj" where
  "userWithoutSensitiveData u =
    [(''id'', Str (u_id u)), (''name'', Str (u_name u)), (''email'', Str (u_email u)),
     (''role'', Str (u_role u)), (''teamId'', js_of (u_teamId u)),
     (''department'', js_of (u_department u)), (''phone'', js_of (u_phone u)),
     (''isActive'', js_of_int (u_isActive u)), (''createdBy'', js_of (u_createdBy u)),
     (''updatedBy'', js_of (u_updatedBy u)), (''createdAt'', Str (u_createdAt u)),
     (''updatedAt'', Str (u_updatedAt u)), (''lastLoginAt'', js_of (u_lastLoginAt u))]"

text \<open>
  \<open>login\<close>. The first argument after the context is \<open>validationResult(req)\<close>, the list of
  validation errors. The steps are those of the source, in its order: validation, lookup
  by email, lock check, active check, password check.
\<close>

definition login ::
  "lib \<Rightarrow> config \<Rightarrow> ctx \<Rightarrow> string list \<Rightarrow> login_body \<Rightarrow> db \<Rightarrow> login_data response \<times> db" where
  "login L cfg cx errors body d =
    (if errors \<noteq> [] then (validation_reply errors, d)
     else case db_get (\<lambda>u. u_email u = lb_email body) (users d) of
       None \<Rightarrow> (reply 401 ''Invalid credentials'', d)
     | Some user \<Rightarrow>
         if isAccountLocked user (now_ms cx)
         then (reply 423 ''Account temporarily locked due to too many failed login attempts'', d)
         else if \<not> (case u_isActive user of None \<Rightarrow> False | Some n \<Rightarrow> n \<noteq> 0)
         then (reply 401 ''Account is inactive'', d)
         else if \<not> bcrypt_compare L (lb_password body) (u_password user)
         then (case incrementLoginAttempts cfg (now_ms cx) (u_id user) d of
                 None \<Rightarrow> (reply 500 ''Internal server error'', d)
               | Some d' \<Rightarrow> (reply 401 ''Invalid credentials'', d'))
         else
           let d1 = resetLoginAttempts (u_id user) d;
               d2 = d1\<lparr>users := map (\<lambda>u. if u_id u = u_id user
                          then u\<lparr>u_lastLoginAt := Some (now_iso cx)\<rparr> else u) (users d1)\<rparr>;
               (accessToken, refreshToken) =
                 generateTokens L cfg (now_ms cx) (u_id user) (u_email user) (u_role user);
               d3 = storeRefreshToken (uuid_a cx) (now_ms cx) (u_id user) refreshToken d2;
               d4 = logActivity (uuid_b cx) cx ''login'' ''user'' (Str (u_id user))
                      ''User logged in'' NoChanges (Str (u_id user)) d3
           in (ok_reply 200 ''Login successful''
                 (Some \<lparr>ld_user = userWithoutSensitiveData user,
                         ld_accessToken = accessToken, ld_refreshToken = refreshToken\<rparr>),
               d4))"

text \<open>
  \<open>refreshToken\<close>. The argument is \<open>req.body.refreshToken\<close>, a string or missing. The user
  query selects \<open>id, name, email, role, teamId, department, phone, isActive\<close> of the row
  with \<open>isActive = 1\<close>.
\<close>

definition refreshUser :: "user_row \<Rightarrow> obj" where
  "refreshUser u =
    [(''id'', Str (u_id u)), (''name'', Str (u_name u)), (''email'', Str (u_email u)),
     (''role'', Str (u_role u)), (''teamId'', js_of (u_teamId u)),
     (''department'', js_of (u_department u)), (''phone'', js_of (u_phone u)),
     (''isActive'', js_of_int (u_isActive u))]"

definition refreshToken ::
  "lib \<Rightarrow> config \<Rightarrow> ctx \<Rightarrow> string option \<Rightarrow> db \<Rightarrow> login_data response \<times> db" where
  "refreshToken L cfg cx bodyToken d =
    (case bodyToken of
       None \<Rightarrow> (reply 401 ''Refresh token required'', d)
     | Some tok \<Rightarrow>
         if tok = [] then (reply 401 ''Refresh token required'', d)
         else (case jwt_verify L tok (jwt_refreshSecret cfg) (now_ms cx) of
           None \<Rightarrow> (reply 401 ''Invalid refresh token'', d)
         | Some decoded \<Rightarrow>
             (case db_get (\<lambda>r. rt_token r = tok \<and> rt_userId r = pl_userId decoded \<and>
                                rt_expiresAt r > now_ms cx) (refresh_tokens d) of
                None \<Rightarrow> (reply 401 ''Invalid or expired refresh token'', d)
              | Some storedToken \<Rightarrow>
                  (case db_get (\<lambda>u. u_id u = pl_userId decoded \<and> u_isActive u = Some 1)
                          (users d) of
                     None \<Rightarrow> (reply 401 ''User not found or inactive'', d)
                   | Some user \<Rightarrow>
                       let (accessToken, newToken) =
                             generateTokens L cfg (now_ms cx) (u_id user) (u_email user) (u_role user);
                           d1 = removeRefreshToken tok d;
                           d2 = storeRefreshToken (uuid_a cx) (now_ms cx) (u_id user) newToken d1
                       in (ok_reply 200 ''Token refreshed successfully''
                             (Some \<lparr>ld_user = refreshUser user,
                                     ld_accessToken = accessToken, ld_refreshToken = newToken\<rparr>),
                           d2)))))"

text \<open>
  A sequence of login requests that pass validation, served one after the other on the
  same store.
\<close>

fun logins :: "lib \<Rightarrow> config \<Rightarrow> (ctx \<times> login_body) list \<Rightarrow> db \<Rightarrow> db" where
  "logins L cfg [] d = d"
| "logins L cfg (request # rest) d =
     logins L cfg rest (snd (login L cfg (fst request) [] (snd request) d))"

section \<open>Customers (controllers/customerController.js)\<close>

text \<open>The row that \<open>SELECT * FROM customers\<close> returns, as an object, in column order.\<close>

definition customer_obj :: "customer \<Rightarrow> obj" where
  "customer_obj c =
    [(''id'', c_id c), (''name'', c_name c), (''email'', c_email c), (''phone'', c_phone c),
     (''company'', c_company c), (''status'', c_status c), (''tags'', c_tags c),
     (''notes'', c_notes c), (''lastContactDate'', c_lastContactDate c),
     (''ownerId'', c_ownerId c), (''teamId'', c_teamId c), (''assignedTo'', c_assignedTo c),
     (''source'', c_source c), (''value'', c_value c), (''industry'', c_industry c),
     (''createdBy'', c_createdBy c), (''updatedBy'', c_updatedBy c),
     (''createdAt'', c_createdAt c), (''updatedAt'', c_updatedAt c)]"

subsection \<open>The list query\<close>

text \<open>
  The query string of \<open>GET /customers\<close>: each of \<open>search\<close>, \<open>status\<close>, \<open>industry\<close> and
  \<open>source\<close> is a string or missing. \<open>customersWhere\<close> is the part of \<open>getCustomers\<close> that
  builds the base conditions and hands them to \<open>buildWhereClause\<close> with the alias \<open>c\<close>;
  the clause is then spliced into the count query and the page query.
\<close>

record customer_query =
  q_search :: "string option"
  q_status :: "string option"
  q_industry :: "string option"
  q_source :: "string option"

definition andCondition :: "string \<times> jsval list \<Rightarrow> string \<Rightarrow> string option \<Rightarrow> string \<times> jsval list" where
  "andCondition acc column v =
    (case acc of (baseWhere, params) \<Rightarrow>
       (case v of
          None \<Rightarrow> (baseWhere, params)
        | Some s \<Rightarrow>
            if s = [] then (baseWhere, params)
            else (baseWhere @
                    (if baseWhere \<noteq> [] then '' AND '' @ column @ '' = ?'' else column @ '' = ?''),
                  params @ [Str s])))"

definition customersWhere :: "customer_query \<Rightarrow> obj \<Rightarrow> string \<times> jsval list" where
  "customersWhere q dataFilter =
    (let s0 = (case q_search q of
                 None \<Rightarrow> ([], [])
               | Some s \<Rightarrow>
                   if s = [] then ([], [])
                   else (''(name LIKE ? OR email LIKE ? OR company LIKE ?)'',
                         replicate 3 (Str (''%'' @ s @ ''%''))));
         s1 = andCondition s0 ''status'' (q_status q);
         s2 = andCondition s1 ''industry'' (q_industry q);
         s3 = andCondition s2 ''source'' (q_source q)
     in buildWhereClause (fst s3) dataFilter (snd s3) ''c'')"

text \<open>
  The list route runs \<open>applyDataFilter\<close> and then \<open>getCustomers\<close>: the WHERE clause and
  parameters of the queries that the route sends to the store.
\<close>

definition customersListWhere :: "principal option \<Rightarrow> customer_query \<Rightarrow> unit response + string \<times> jsval list" where
  "customersListWhere user q =
    (case applyDataFilter user of
       Inl r \<Rightarrow> Inl r
     | Inr None \<Rightarrow> Inl (reply 500 ''Failed to fetch customers'')
     | Inr (Some dataFilter) \<Rightarrow> Inr (customersWhere q dataFilter))"

subsection \<open>Update\<close>

text \<open>
  \<open>updateData\<close>, built from the request body (any object) and the existing row: fourteen
  properties, in this order.
\<close>

definition updateData :: "builtins \<Rightarrow> ctx \<Rightarrow> principal \<Rightarrow> obj \<Rightarrow> customer \<Rightarrow> obj" where
  "updateData B cx user body existingCustomer =
    [(''name'', js_or (obj_get body ''name'') (c_name existingCustomer)),
     (''email'', js_or (obj_get body ''email'') (c_email existingCustomer)),
     (''phone'', js_or (obj_get body ''phone'') (c_phone existingCustomer)),
     (''company'', js_or (obj_get body ''company'') (c_company existingCustomer)),
     (''status'', js_or (obj_get body ''status'') (c_status existingCustomer)),
     (''tags'', if truthy (obj_get body ''tags'')
                then Str (JSON_stringify B (obj_get body ''tags''))
                else c_tags existingCustomer),
     (''notes'', if obj_get body ''notes'' \<noteq> Undefined then obj_get body ''notes''
                 else c_notes existingCustomer),
     (''lastContactDate'',
        js_or (obj_get body ''lastContactDate'') (c_lastContactDate existingCustomer)),
     (''value'', if obj_get body ''value'' \<noteq> Undefined then obj_get body ''value''
                 else c_value existingCustomer),
     (''industry'', js_or (obj_get body ''industry'') (c_industry existingCustomer)),
     (''source'', js_or (obj_get body ''source'') (c_source existingCustomer)),
     (''assignedTo'', js_or (obj_get body ''assignedTo'') (c_assignedTo existingCustomer)),
     (''updatedBy'', p_id user),
     (''updatedAt'', Str (now_iso cx))]"

text \<open>
  The UPDATE statement sets fourteen columns of the rows with the given id. The value
  that a column holds afterwards is the bound value under the affinity of the column,
  REAL for \<open>value\<close> and TEXT for the others. The statement fails, and the handler answers
  500 from its \<open>catch\<close>, when a row would break a constraint of the table: \<open>name\<close> is
  NOT NULL, \<open>status\<close> is NULL or one of three texts, and with foreign keys enabled
  \<open>assignedTo\<close> and \<open>updatedBy\<close> are NULL or the id of a user.
\<close>

definition bound :: "builtins \<Rightarrow> obj \<Rightarrow> string \<Rightarrow> jsval" where
  "bound B upd k =
     (if k = ''value'' then stored_real B (obj_get upd k) else stored_text B (obj_get upd k))"

definition update_violates :: "builtins \<Rightarrow> obj \<Rightarrow> db \<Rightarrow> bool" where
  "update_violates B upd d =
     (if bound B upd ''name'' = Null then True
      else if bound B upd ''status'' \<in> {Null, Str ''active'', Str ''inactive'', Str ''prospect''}
      then (if foreign_keys d
            then (if references_user d (bound B upd ''assignedTo'')
                  then \<not> references_user d (bound B upd ''updatedBy'')
                  else True)
            else False)
      else True)"

definition sql_update_customer :: "builtins \<Rightarrow> obj \<Rightarrow> string \<Rightarrow> db \<Rightarrow> db option" where
  "sql_update_customer B upd cid d =
     (if list_ex (\<lambda>c. c_id c = Str cid) (customers d) \<and> update_violates B upd d then None
      else Some (d\<lparr>customers := map (\<lambda>c. if c_id c = Str cid
        then c\<lparr>c_name := bound B upd ''name'', c_email := bound B upd ''email'',
               c_phone := bound B upd ''phone'', c_company := bound B upd ''company'',
               c_status := bound B upd ''status'', c_tags := bound B upd ''tags'',
               c_notes := bound B upd ''notes'',
               c_lastContactDate := bound B upd ''lastContactDate'',
               c_value := bound B upd ''value'', c_industry := bound B upd ''industry'',
               c_source := bound B upd ''source'', c_assignedTo := bound B upd ''assignedTo'',
               c_updatedBy := bound B upd ''updatedBy'',
               c_updatedAt := bound B upd ''updatedAt''\<rparr>
        else c) (customers d)\<rparr>))"

text \<open>
  \<open>updateCustomer\<close>. \<open>req.user\<close> is optional in the model: without it, building
  \<open>updateData\<close> throws before any statement is sent. The data of the reply is the row read
  back; the display names joined to it and the parsing of its tags are left out.
\<close>

definition updateCustomer ::
  "builtins \<Rightarrow> ctx \<Rightarrow> string list \<Rightarrow> principal option \<Rightarrow> string \<Rightarrow> obj \<Rightarrow> db
     \<Rightarrow> customer response \<times> db" where
  "updateCustomer B cx errors user cid body d =
    (if errors \<noteq> [] then (validation_reply errors, d)
     else case db_get (\<lambda>c. c_id c = Str cid) (customers d) of
       None \<Rightarrow> (reply 404 ''Customer not found'', d)
     | Some existingCustomer \<Rightarrow>
         (case user of
            None \<Rightarrow> (reply 500 ''Failed to update customer'', d)
          | Some u \<Rightarrow>
              let upd = updateData B cx u body existingCustomer
              in (case sql_update_customer B upd cid d of
                    None \<Rightarrow> (reply 500 ''Failed to update customer'', d)
                  | Some d1 \<Rightarrow>
                      (case auditRecordChange B cx ''update'' ''customer'' cid
                              (Some (customer_obj existingCustomer)) (Some upd) (p_id u) d1 of
                         None \<Rightarrow> (reply 500 ''Failed to update customer'', d1)
                       | Some d2 \<Rightarrow>
                           (case db_get (\<lambda>c. c_id c = Str cid) (customers d2) of
                              None \<Rightarrow> (reply 500 ''Failed to update customer'', d2)
                            | Some c \<Rightarrow>
                                (ok_reply 200 ''Customer updated successfully'' (Some c), d2))))))"

subsection \<open>Delete\<close>

text \<open>
  \<open>DELETE FROM customers WHERE id = ?\<close>. The leads table declares
  \<open>FOREIGN KEY (customerId) REFERENCES customers(id) ON DELETE CASCADE\<close>: with foreign keys
  enabled on the connection, deleting a customer row deletes the leads that reference it.
  \<open>initialize\<close> enables foreign keys.
\<close>

definition initialize :: "db \<Rightarrow> db" where
  "initialize d = d\<lparr>foreign_keys := True\<rparr>"

definition sql_delete_customer :: "string \<Rightarrow> db \<Rightarrow> db" where
  "sql_delete_customer cid d =
     d\<lparr>customers := filter (\<lambda>c. c_id c \<noteq> Str cid) (customers d),
       leads := (if foreign_keys d \<and> list_ex (\<lambda>c. c_id c = Str cid) (customers d)
                 then filter (\<lambda>l. l_customerId l \<noteq> Str cid) (leads d)
                 else leads d)\<rparr>"

definition deleteCustomer ::
  "builtins \<Rightarrow> ctx \<Rightarrow> principal option \<Rightarrow> string \<Rightarrow> db \<Rightarrow> unit response \<times> db" where
  "deleteCustomer B cx user cid d =
    (case db_get (\<lambda>c. c_id c = Str cid) (customers d) of
       None \<Rightarrow> (reply 404 ''Customer not found'', d)
     | Some existingCustomer \<Rightarrow>
         let d1 = sql_delete_customer cid d
         in (case user of
               None \<Rightarrow> (reply 500 ''Failed to delete customer'', d1)
             | Some u \<Rightarrow>
                 (case auditRecordChange B cx ''delete'' ''customer'' cid
                         (Some (customer_obj existingCustomer)) None (p_id u) d1 of
                    None \<Rightarrow> (reply 500 ''Failed to delete customer'', d1)
                  | Some d2 \<Rightarrow> (ok_reply 200 ''Customer deleted successfully'' None, d2))))"

section \<open>Leads (controllers/leadController.js)\<close>

text \<open>
  \<open>getLeadById\<close>: the row with the id, or 404. The display names joined to the row are
  left out of the data.
\<close>

definition getLeadById :: "string \<Rightarrow> db \<Rightarrow> lead response" where
  "getLeadById lid d =
    (case db_get (\<lambda>l. l_id l = Str lid) (leads d) of
       None \<Rightarrow> reply 404 ''Lead not found''
     | Some l \<Rightarrow> \<lparr>res_status = 200, res_success = True, res_message = [], res_errors = [],
                   res_data = Some l\<rparr>)"

section \<open>Example data\<close>

text \<open>
  A small instance of the store, in the shape of the seeded data: an administrator, two
  sales representatives and a manager of team T1, a manager without a team, and a
  principal whose role is not in the matrix.
\<close>

definition admin_u1 :: principal where
  "admin_u1 = \<lparr>p_id = Str ''U1'', p_name = Str ''Ada'', p_email = Str ''admin@crm.com'',
     p_role = Str ''admin'', p_teamId = Str ''T1'', p_department = Null, p_phone = Null,
     p_isActive = Num 1\<rparr>"

definition rep_u2 :: principal where
  "rep_u2 = \<lparr>p_id = Str ''U2'', p_name = Str ''Bo'', p_email = Str ''bo@crm.com'',
     p_role = Str ''sales_rep'', p_teamId = Str ''T1'', p_department = Null, p_phone = Null,
     p_isActive = Num 1\<rparr>"

definition rep_u3 :: principal where
  "rep_u3 = \<lparr>p_id = Str ''U3'', p_name = Str ''Cy'', p_email = Str ''cy@crm.com'',
     p_role = Str ''sales_rep'', p_teamId = Str ''T1'', p_department = Null, p_phone = Null,
     p_isActive = Num 1\<rparr>"

definition manager_u4 :: principal where
  "manager_u4 = \<lparr>p_id = Str ''U4'', p_name = Str ''Mia'', p_email = Str ''mia@crm.com'',
     p_role = Str ''manager'', p_teamId = Str ''T1'', p_department = Null, p_phone = Null,
     p_isActive = Num 1\<rparr>"

definition manager_no_team :: principal where
  "manager_no_team = \<lparr>p_id = Str ''U7'', p_name = Str ''Noor'', p_email = Str ''noor@crm.com'',
     p_role = Str ''manager'', p_teamId = Null, p_department = Null, p_phone = Null,
     p_isActive = Num 1\<rparr>"


text \<open>A record of team T2 that the manager of team T1 owns.\<close>

definition own_record_other_team :: access_record where
  "own_record_other_team = \<lparr>ownerId = Str ''U4'', teamId = Str ''T2'', assignedTo = Str ''U2''\<rparr>"

definition no_query :: customer_query where
  "no_query = \<lparr>q_search = None, q_status = None, q_industry = None, q_source = None\<rparr>"

definition active_query :: customer_query where
  "active_query =
     \<lparr>q_search = None, q_status = Some ''active'', q_industry = None, q_source = None\<rparr>"

definition user_bo :: user_row where
  "user_bo = \<lparr>u_id = ''U2'', u_name = ''Bo'', u_email = ''bo@crm.com'', u_password = ''#secret'',
     u_role = ''sales_rep'', u_teamId = Some ''T1'', u_department = None, u_phone = None,
     u_isActive = Some 1, u_loginAttempts = Some 0, u_lockUntil = None, u_createdBy = None,
     u_updatedBy = None, u_createdAt = ''2024-01-01T00:00:00.000Z'',
     u_updatedAt = ''2024-01-01T00:00:00.000Z'', u_lastLoginAt = None\<rparr>"

definition customer_c1 :: customer where
  "customer_c1 = \<lparr>c_id = Str ''C1'', c_name = Str ''Acme'', c_email = Null, c_phone = Null,
     c_company = Str ''Acme'', c_status = Str ''active'', c_tags = Null, c_notes = Null,
     c_lastContactDate = Str ''2024-01-01T00:00:00.000Z'', c_ownerId = Str ''U2'',
     c_teamId = Str ''T1'', c_assignedTo = Str ''U2'', c_source = Null, c_value = Num 0,
     c_industry = Null, c_createdBy = Str ''U2'', c_updatedBy = Str ''U2'',
     c_createdAt = Str ''2024-01-01T00:00:00.000Z'',
     c_updatedAt = Str ''2024-01-01T00:00:00.000Z''\<rparr>"

definition lead_of :: "string \<Rightarrow> string \<Rightarrow> lead" where
  "lead_of lid cid = \<lparr>l_id = Str lid, l_title = Str ''Deal'', l_description = Null,
     l_customerId = Str cid, l_status = Str ''new'', l_value = Num 0,
     l_expectedCloseDate = Null, l_priority = Str ''medium'', l_source = Null,
     l_ownerId = Str ''U2'', l_teamId = Str ''T1'', l_assignedTo = Str ''U2'',
     l_createdBy = Str ''U2'', l_updatedBy = Str ''U2'',
     l_createdAt = Str ''2024-01-01T00:00:00.000Z'',
     l_updatedAt = Str ''2024-01-01T00:00:00.000Z''\<rparr>"

definition crm0 :: db where
  "crm0 = initialize \<lparr>users = [user_bo], teams = [], customers = [customer_c1],
     leads = [lead_of ''L1'' ''C1'', lead_of ''L2'' ''C1'', lead_of ''L3'' ''C2''],
     activities = [], refresh_tokens = [], foreign_keys = False\<rparr>"

text \<open>Request bodies: one that changes the status, one that also names protected columns.\<close>

definition status_body :: obj where
  "status_body = [(''name'', Str ''Acme''), (''status'', Str ''inactive'')]"

definition hostile_body :: obj where
  "hostile_body = [(''name'', Str ''Acme''), (''status'', Str ''inactive''), (''id'', Str ''C7''),
     (''ownerId'', Str ''U3''), (''teamId'', Str ''T9''), (''createdBy'', Str ''U3''),
     (''createdAt'', Str ''1999-01-01T00:00:00.000Z'')]"

text \<open>
  Stand-ins for the libraries. A password matches the hash that is \<open>#\<close> followed by it.
  A token is signed from the payload, the secret, the expiry setting and the time of
  issue in whole seconds, as the \<open>iat\<close> claim records it; the tokens of Bo verify.
\<close>

definition test_lib :: lib where
  "test_lib = \<lparr>bcrypt_compare = (\<lambda>password hash. hash = ''#'' @ password),
     jwt_sign = (\<lambda>pl secret expiresIn now.
        pl_userId pl @ ''.'' @ pl_email pl @ ''.'' @ pl_role pl @ ''.'' @ secret @ ''.'' @
        expiresIn @ ''.'' @ replicate (nat (now div 1000)) (CHR ''i'')),
     jwt_verify = (\<lambda>tok secret now.
        if take (24 + length secret) tok = ''U2.bo@crm.com.sales_rep.'' @ secret
        then Some \<lparr>pl_userId = ''U2'', pl_email = ''bo@crm.com'', pl_role = ''sales_rep''\<rparr>
        else None)\<rparr>"

text \<open>The tokens that the stand-in signs for Bo in the second that starts at 1000 ms.\<close>

definition bo_access_token :: string where
  "bo_access_token = ''U2.bo@crm.com.sales_rep.s.15m.i''"

definition bo_refresh_token :: string where
  "bo_refresh_token = ''U2.bo@crm.com.sales_rep.r.7d.i''"

definition test_config :: config where
  "test_config = \<lparr>jwt_secret = ''s'', jwt_refreshSecret = ''r'', jwt_expiresIn = ''15m'',
     jwt_refreshExpiresIn = ''7d'', maxLoginAttempts = 5, lockTime = 30 * 60 * 1000\<rparr>"

text \<open>
  A stand-in for the runtime. An object literal inherits twelve properties: eleven
  functions, \<open>constructor\<close> being the function \<open>Object\<close> and each of the others a function
  named like the property, and \<open>__proto__\<close>, which reads as \<open>Object.prototype\<close> itself. Of
  the properties of these values the stand-in knows the name of each function and gives
  nothing for the rest. A text or NULL is stored in a TEXT column as it is, and so is a
  number or NULL in a REAL column; the examples bind no other values.
\<close>

definition object_prototype_functions :: "string list" where
  "object_prototype_functions =
     [''constructor'', ''__defineGetter__'', ''__defineSetter__'', ''hasOwnProperty'',
      ''__lookupGetter__'', ''__lookupSetter__'', ''isPrototypeOf'', ''propertyIsEnumerable'',
      ''toString'', ''valueOf'', ''toLocaleString'']"

definition test_builtins :: builtins where
  "test_builtins =
     \<lparr>js_String = (\<lambda>v. ''?''), JSON_stringify = (\<lambda>v. ''[]''),
      inherited = (\<lambda>k. if k \<in> set object_prototype_functions \<or> k = ''__proto__''
                        then Foreign else Missing),
      inherited_prop = (\<lambda>k1 k2.
         if k1 \<in> set object_prototype_functions \<and> k2 = ''name''
         then Text (if k1 = ''constructor'' then ''Object'' else k1)
         else Missing),
      stored_text = (\<lambda>v. v), stored_real = (\<lambda>v. v)\<rparr>"


definition ctx_of :: "int \<Rightarrow> string \<Rightarrow> string \<Rightarrow> string \<Rightarrow> ctx" where
  "ctx_of ms text ida idb = \<lparr>now_ms = ms, now_iso = text, req_ip = Str ''10.0.0.1'',
     req_userAgent = Undefined, uuid_a = ida, uuid_b = idb\<rparr>"

definition ctx_at :: "int \<Rightarrow> string \<Rightarrow> ctx" where
  "ctx_at ms text = ctx_of ms text ''id-a'' ''id-b''"

text \<open>Five logins with a wrong password, a second apart.\<close>

definition five_guesses :: "(ctx \<times> login_body) list" where
  "five_guesses =
     map (\<lambda>(ms, text). (ctx_at ms text, \<lparr>lb_email = ''bo@crm.com'', lb_password = ''guess''\<rparr>))
       [(1000, ''1970-01-01T00:00:01.000Z''), (2000, ''1970-01-01T00:00:02.000Z''),
        (3000, ''1970-01-01T00:00:03.000Z''), (4000, ''1970-01-01T00:00:04.000Z''),
        (5000, ''1970-01-01T00:00:05.000Z'')]"

text \<open>
  A login of Bo with the right password at 1000 ms, and the store that it leaves: the
  login time on the user row, the refresh token, the login activity.
\<close>

definition bo_login :: login_body where
  "bo_login = \<lparr>lb_email = ''bo@crm.com'', lb_password = ''secret''\<rparr>"

definition crm1 :: db where
  "crm1 = crm0\<lparr>users := [user_bo\<lparr>u_lastLoginAt := Some ''1970-01-01T00:00:01.000Z''\<rparr>],
     refresh_tokens :=
       [\<lparr>rt_id = ''id-1'', rt_userId = ''U2'', rt_token = bo_refresh_token,
         rt_expiresAt = 1000 + 7 * 24 * 60 * 60 * 1000\<rparr>],
     activities :=
       [\<lparr>a_id = ''id-2'', a_type = ''login'', a_resourceType = ''user'',
         a_resourceId = Str ''U2'', a_description = ''User logged in'', a_changes = NoChanges,
         a_userId = Str ''U2'', a_ipAddress = Str ''10.0.0.1'', a_userAgent = Null,
         a_createdAt = ''1970-01-01T00:00:01.000Z''\<rparr>]\<rparr>"

section \<open>Lookups in the store\<close>

lemma db_get_None: "db_get P rows = None \<longleftrightarrow> (\<forall>r \<in> set rows. \<not> P r)"
  by (auto simp: db_get_def find_None_iff)

lemma db_get_Some: "db_get P rows = Some r \<Longrightarrow> r \<in> set rows \<and> P r"
  by (auto simp: db_get_def find_Some_iff)

section \<open>Properties of the permission matrix\<close>










section \<open>Properties of record scoping\<close>

text \<open>
  C1 (as amended). For a principal \<open>m\<close> whose role is manager and a record \<open>r\<close>,
  \<open>canAccessRecord(m, r)\<close> is true exactly when \<open>r.teamId\<close> equals \<open>m.teamId\<close>, or
  \<open>r.ownerId\<close> equals \<open>m.id\<close>, or \<open>r.assignedTo\<close> equals \<open>m.id\<close>: a manager who fails the
  team test falls through to the owner and assignee tests that apply to every user.
\<close>

theorem canAccessRecord_manager:
  "p_role m = Str ''manager'' \<Longrightarrow>
   canAccessRecord (Some m) (Some r) \<longleftrightarrow>
     (teamId r = p_teamId m \<or> ownerId r = p_id m \<or> assignedTo r = p_id m)"
  by (simp add: canAccessRecord_def)

theorem canAccessRecord_manager_witness:
  "p_role manager_u4 = Str ''manager'' \<and>
   canAccessRecord (Some manager_u4) (Some own_record_other_team)"
proof -
  have h: "p_role manager_u4 = Str ''manager''"
    by (simp add: manager_u4_def)
  show ?thesis
    using h canAccessRecord_manager [OF h, of own_record_other_team]
    by (simp add: manager_u4_def own_record_other_team_def)
qed

text \<open>
  C1 as stated fails: the manager of team T1 reaches a record of team T2 that the manager
  owns, so access is not equivalent to equality of the teams.
\<close>

theorem canAccessRecord_manager_counterexample:
  "p_role manager_u4 = Str ''manager'' \<and>
   \<not> (canAccessRecord (Some manager_u4) (Some own_record_other_team) \<longleftrightarrow>
        teamId own_record_other_team = p_teamId manager_u4)"
  by (simp add: canAccessRecord_def manager_u4_def own_record_other_team_def)

lemma getDataFilter_roles:
  "p_role u = Str ''admin'' \<Longrightarrow> getDataFilter (Some u) = Some []"
  "p_role u = Str ''manager'' \<Longrightarrow> getDataFilter (Some u) = Some [(''teamId'', p_teamId u)]"
  "p_role u \<noteq> Str ''admin'' \<Longrightarrow> p_role u \<noteq> Str ''manager'' \<Longrightarrow>
     getDataFilter (Some u) = Some [(''ownerId'', p_id u)]"
  by (simp_all add: getDataFilter_def)

lemma buildWhereClause_unfiltered:
  "buildWhereClause base [] ps a = (if base \<noteq> [] then ''WHERE '' @ base else [], ps)"
  by (simp add: buildWhereClause_def obj_get_def)

lemma buildWhereClause_team:
  "truthy t \<Longrightarrow>
   buildWhereClause base [(''teamId'', t)] ps a =
     (''WHERE '' @ (if base \<noteq> [] then base @ '' AND '' else []) @ a @ ''.teamId = ?'', ps @ [t])"
  by (simp add: buildWhereClause_def obj_get_def)

lemma buildWhereClause_owner:
  "truthy v \<Longrightarrow>
   buildWhereClause base [(''ownerId'', v)] ps a =
     (''WHERE '' @ (if base \<noteq> [] then base @ '' AND '' else []) @ a @ ''.ownerId = ?'', ps @ [v])"
  by (simp add: buildWhereClause_def obj_get_def)

lemma buildWhereClause_team_falsy:
  "\<not> truthy t \<Longrightarrow> buildWhereClause base [(''teamId'', t)] ps a = buildWhereClause base [] ps a"
  by (simp add: buildWhereClause_def obj_get_def)

text \<open>
  C2, at the input where the code departs from it. A manager whose \<open>teamId\<close> is NULL
  gets the filter \<open>{teamId: null}\<close>; \<open>buildWhereClause\<close> tests \<open>filter.teamId\<close> for
  truthiness and adds no condition, so the list query of this manager carries no
  restriction at all: it is the query of the administrator, with only the conditions that
  the caller supplied.
\<close>

theorem manager_without_team_unrestricted:
  "p_role manager_no_team = Str ''manager'' \<and>
   customersListWhere (Some manager_no_team) no_query = Inr ([], []) \<and>
   customersListWhere (Some manager_no_team) active_query =
     Inr (''WHERE status = ?'', [Str ''active'']) \<and>
   customersListWhere (Some manager_no_team) active_query =
     customersListWhere (Some admin_u1) active_query \<and>
   customersListWhere (Some manager_u4) active_query =
     Inr (''WHERE status = ? AND c.teamId = ?'', [Str ''active'', Str ''T1''])"
  by (simp add: customersListWhere_def applyDataFilter_def getDataFilter_def customersWhere_def
      andCondition_def buildWhereClause_def obj_get_def manager_no_team_def
      admin_u1_def manager_u4_def no_query_def active_query_def)

lemma requirePermission_user:
  "requirePermission B resource action user = Inr None \<Longrightarrow> user \<noteq> None"
  by (auto simp: requirePermission_def split: if_splits)

text \<open>
  C6. A request for one customer or lead by id, from a principal that has passed the
  permission check: when no row has the id the middleware answers 404, whatever the
  access predicate would say; when the row exists and \<open>canAccessRecord\<close> is false for it,
  the middleware answers 403.
\<close>

theorem requireRecordAccess_404_403:
  assumes "requirePermission B resource action user = Inr None" and "rid \<noteq> []"
  shows "(db_get (\<lambda>c. c_id c = Str rid) (customers d) = None \<longrightarrow>
            requireRecordAccess ''customer'' d user (Some rid) =
              Inl (reply 404 ''customer not found'')) \<and>
         (db_get (\<lambda>l. l_id l = Str rid) (leads d) = None \<longrightarrow>
            requireRecordAccess ''lead'' d user (Some rid) =
              Inl (reply 404 ''lead not found'')) \<and>
         (\<forall>c. db_get (\<lambda>c. c_id c = Str rid) (customers d) = Some c \<and>
               \<not> canAccessRecord user
                    (Some \<lparr>ownerId = c_ownerId c, teamId = c_teamId c,
                           assignedTo = c_assignedTo c\<rparr>) \<longrightarrow>
            requireRecordAccess ''customer'' d user (Some rid) =
              Inl (reply 403 ''Access denied to this resource'')) \<and>
         (\<forall>l. db_get (\<lambda>l. l_id l = Str rid) (leads d) = Some l \<and>
               \<not> canAccessRecord user
                    (Some \<lparr>ownerId = l_ownerId l, teamId = l_teamId l,
                           assignedTo = l_assignedTo l\<rparr>) \<longrightarrow>
            requireRecordAccess ''lead'' d user (Some rid) =
              Inl (reply 403 ''Access denied to this resource''))"
proof -
  from assms(1) have u: "user \<noteq> None" by (rule requirePermission_user)
  show ?thesis
    using u assms(2) by (auto simp: requireRecordAccess_def select_record_def)
qed

theorem requireRecordAccess_404_403_witness:
  "requirePermission test_builtins ''customers'' ''read'' (Some rep_u3) = Inr None \<and>
   ''C9'' \<noteq> [] \<and>
   requireRecordAccess ''customer'' crm0 (Some rep_u3) (Some ''C9'') =
     Inl (reply 404 ''customer not found'') \<and>
   requireRecordAccess ''customer'' crm0 (Some rep_u3) (Some ''C1'') =
     Inl (reply 403 ''Access denied to this resource'')"
proof -
  have r: "template test_builtins (p_role rep_u3) = ''sales_rep''"
    by (simp add: template_def rep_u3_def)
  have h: "hasPermission test_builtins (Some rep_u3) ''customers'' ''read'' = Inr True"
    using r
    by (simp add: hasPermission_def ROLE_PERMISSIONS_def includes_permission_def falsy_def
        rep_u3_def)
  have p: "requirePermission test_builtins ''customers'' ''read'' (Some rep_u3) = Inr None"
    using h by (simp add: requirePermission_def)
  have n9: "''C9'' \<noteq> []" and n1: "''C1'' \<noteq> []" by simp_all
  have g9: "db_get (\<lambda>c. c_id c = Str ''C9'') (customers crm0) = None"
    by (simp add: db_get_def crm0_def initialize_def customer_c1_def)
  have g1: "db_get (\<lambda>c. c_id c = Str ''C1'') (customers crm0) = Some customer_c1"
    by (simp add: db_get_def crm0_def initialize_def customer_c1_def)
  have a1: "\<not> canAccessRecord (Some rep_u3)
      (Some \<lparr>ownerId = c_ownerId customer_c1, teamId = c_teamId customer_c1,
              assignedTo = c_assignedTo customer_c1\<rparr>)"
    by (simp add: canAccessRecord_def rep_u3_def customer_c1_def)
  show ?thesis
    using p n9 g9 g1 a1 requireRecordAccess_404_403 [OF p n9, of crm0]
      requireRecordAccess_404_403 [OF p n1, of crm0]
    by blast
qed

section \<open>Properties of the login\<close>




section \<open>Properties of the customer update\<close>

lemma sql_update_customer_frame:
  assumes "sql_update_customer B upd cid d = Some d1"
  shows "map c_id (customers d1) = map c_id (customers d)"
    and "map c_ownerId (customers d1) = map c_ownerId (customers d)"
    and "map c_teamId (customers d1) = map c_teamId (customers d)"
    and "map c_createdBy (customers d1) = map c_createdBy (customers d)"
    and "map c_createdAt (customers d1) = map c_createdAt (customers d)"
  using assms by (auto simp: sql_update_customer_def split: if_splits)

lemma logActivity_customers: "customers (logActivity i cx t rt ri de ch us d) = customers d"
  by (simp add: logActivity_def)

lemma auditRecordChange_customers:
  "auditRecordChange B cx t rt ri od nd us d = Some d' \<Longrightarrow> customers d' = customers d"
  by (auto simp: auditRecordChange_def logActivity_customers Let_def
      split: if_splits option.splits prod.splits)

lemma updateCustomer_customers:
  "customers (snd (updateCustomer B cx errors user cid body d)) = customers d \<or>
   (\<exists>upd d1. sql_update_customer B upd cid d = Some d1 \<and>
      customers (snd (updateCustomer B cx errors user cid body d)) = customers d1)"
  by (auto simp: updateCustomer_def Let_def dest: auditRecordChange_customers
      split: option.splits)

text \<open>
  C10. Whatever the request, \<open>updateCustomer\<close> leaves the columns \<open>id\<close>, \<open>ownerId\<close>,
  \<open>teamId\<close>, \<open>createdBy\<close> and \<open>createdAt\<close> of every customer row as they were: the table
  after the call has the same rows in the same order with these five columns unchanged.
\<close>

theorem updateCustomer_frame:
  "map c_id (customers (snd (updateCustomer B cx errors user cid body d))) =
     map c_id (customers d) \<and>
   map c_ownerId (customers (snd (updateCustomer B cx errors user cid body d))) =
     map c_ownerId (customers d) \<and>
   map c_teamId (customers (snd (updateCustomer B cx errors user cid body d))) =
     map c_teamId (customers d) \<and>
   map c_createdBy (customers (snd (updateCustomer B cx errors user cid body d))) =
     map c_createdBy (customers d) \<and>
   map c_createdAt (customers (snd (updateCustomer B cx errors user cid body d))) =
     map c_createdAt (customers d)"
  using updateCustomer_customers [of B cx errors user cid body d]
  by (auto dest: sql_update_customer_frame)

theorem updateCustomer_frame_witness:
  "map c_id (customers (snd (updateCustomer test_builtins
      (ctx_at 1706745600000 ''2024-02-01T00:00:00.000Z'') [] (Some rep_u2) ''C1'' hostile_body crm0))) =
     [Str ''C1''] \<and>
   map c_ownerId (customers (snd (updateCustomer test_builtins
      (ctx_at 1706745600000 ''2024-02-01T00:00:00.000Z'') [] (Some rep_u2) ''C1'' hostile_body crm0))) =
     [Str ''U2''] \<and>
   map c_teamId (customers (snd (updateCustomer test_builtins
      (ctx_at 1706745600000 ''2024-02-01T00:00:00.000Z'') [] (Some rep_u2) ''C1'' hostile_body crm0))) =
     [Str ''T1'']"
  using updateCustomer_frame [of test_builtins "ctx_at 1706745600000 ''2024-02-01T00:00:00.000Z''" "[]"
      "Some rep_u2" "''C1''" hostile_body crm0]
  by (simp add: crm0_def initialize_def customer_c1_def)

section \<open>Properties of the audit trail\<close>

lemma update_fresh: "k \<notin> fst ` set al \<Longrightarrow> AList.update k v al = al @ [(k, v)]"
  by (induction al) auto

lemma diff_foldl:
  "distinct ks \<Longrightarrow> set ks \<inter> fst ` set acc = {} \<Longrightarrow>
   foldl (\<lambda>chg key. if obj_get oldData key \<noteq> obj_get newData key
                      then AList.update key (obj_get oldData key, obj_get newData key) chg
                      else chg) acc ks =
   acc @ map (\<lambda>k. (k, obj_get oldData k, obj_get newData k))
            (filter (\<lambda>k. obj_get oldData k \<noteq> obj_get newData k) ks)"
proof (induction ks arbitrary: acc)
  case Nil
  then show ?case by simp
next
  case (Cons k ks)
  from Cons.prems have fresh: "k \<notin> fst ` set acc" and d: "distinct ks" and nk: "k \<notin> set ks"
    and disj: "set ks \<inter> fst ` set acc = {}"
    by auto
  show ?case
  proof (cases "obj_get oldData k \<noteq> obj_get newData k")
    case True
    have "set ks \<inter> fst ` set (acc @ [(k, obj_get oldData k, obj_get newData k)]) = {}"
      using disj nk by auto
    from Cons.IH [OF d this] True fresh show ?thesis
      by (simp add: update_fresh)
  next
    case False
    from Cons.IH [OF d disj] False show ?thesis by simp
  qed
qed

lemma diffChanges_distinct:
  "distinct (map fst newData) \<Longrightarrow>
   diffChanges oldData newData =
     map (\<lambda>k. (k, obj_get oldData k, obj_get newData k))
         (filter (\<lambda>k. obj_get oldData k \<noteq> obj_get newData k) (map fst newData))"
  unfolding diffChanges_def using diff_foldl [of "map fst newData" "[]" oldData newData] by simp

lemma find_map_keep:
  "(\<And>x. P (f x) = P x) \<Longrightarrow> find P (map f xs) = map_option f (find P xs)"
  by (induction xs) auto

lemma refetch:
  assumes "db_get (\<lambda>c. c_id c = Str cid) (customers d) = Some ex"
    and "sql_update_customer B upd cid d = Some d1"
  shows "db_get (\<lambda>c. c_id c = Str cid) (customers d1) \<noteq> None"
proof -
  from assms(2) have "customers d1 =
      map (\<lambda>c. if c_id c = Str cid then
        c\<lparr>c_name := bound B upd ''name'', c_email := bound B upd ''email'',
               c_phone := bound B upd ''phone'', c_company := bound B upd ''company'',
               c_status := bound B upd ''status'', c_tags := bound B upd ''tags'',
               c_notes := bound B upd ''notes'',
               c_lastContactDate := bound B upd ''lastContactDate'',
               c_value := bound B upd ''value'', c_industry := bound B upd ''industry'',
               c_source := bound B upd ''source'', c_assignedTo := bound B upd ''assignedTo'',
               c_updatedBy := bound B upd ''updatedBy'',
               c_updatedAt := bound B upd ''updatedAt''\<rparr> else c) (customers d)"
    (is "_ = map ?f _")
    by (auto simp: sql_update_customer_def split: if_splits)
  moreover have "find (\<lambda>c. c_id c = Str cid) (map ?f (customers d)) =
      map_option ?f (find (\<lambda>c. c_id c = Str cid) (customers d))"
    by (rule find_map_keep) simp
  ultimately show ?thesis
    using assms(1) by (simp add: db_get_def)
qed

lemma sql_update_customer_rest:
  assumes "sql_update_customer B upd cid d = Some d1"
  shows "activities d1 = activities d" and "users d1 = users d"
    and "foreign_keys d1 = foreign_keys d"
  using assms by (auto simp: sql_update_customer_def split: if_splits)

lemma insert_violates_users:
  "users d1 = users d \<Longrightarrow> foreign_keys d1 = foreign_keys d \<Longrightarrow>
   insert_violates t rt ri us d1 = insert_violates t rt ri us d"
  by (simp add: insert_violates_def references_user_def)

lemma updateCustomer_activities:
  assumes "db_get (\<lambda>c. c_id c = Str cid) (customers d) = Some ex"
    and "sql_update_customer B (updateData B cx u body ex) cid d = Some d1"
    and "\<not> insert_violates ''update'' ''customer'' (Str cid) (p_id u) d"
  shows "map a_changes (activities (snd (updateCustomer B cx [] (Some u) cid body d))) =
         map a_changes (activities d) @
           [Updated (diffChanges (customer_obj ex) (updateData B cx u body ex))]"
proof -
  let ?upd = "updateData B cx u body ex"
  note rest = sql_update_customer_rest [OF assms(2)]
  from assms(3) have ok: "\<not> insert_violates ''update'' ''customer'' (Str cid) (p_id u) d1"
    by (simp add: insert_violates_users [OF rest(2,3)])
  obtain d2 where a: "auditRecordChange B cx ''update'' ''customer'' cid
      (Some (customer_obj ex)) (Some ?upd) (p_id u) d1 = Some d2"
    and act: "map a_changes (activities d2) = map a_changes (activities d1) @
           [Updated (diffChanges (customer_obj ex) ?upd)]"
    and cs: "customers d2 = customers d1"
    using ok by (simp add: auditRecordChange_def logActivity_def Let_def)
  from refetch [OF assms(1,2)] cs obtain c where
    "db_get (\<lambda>c. c_id c = Str cid) (customers d2) = Some c" by auto
  with a assms(1,2) act rest(1) show ?thesis
    by (simp add: updateCustomer_def Let_def)
qed

lemma updateCustomer_unlogged:
  assumes "db_get (\<lambda>c. c_id c = Str cid) (customers d) = Some ex"
    and "sql_update_customer B (updateData B cx u body ex) cid d = Some d1"
    and "insert_violates ''update'' ''customer'' (Str cid) (p_id u) d"
  shows "activities (snd (updateCustomer B cx [] (Some u) cid body d)) = activities d"
proof -
  let ?upd = "updateData B cx u body ex"
  note rest = sql_update_customer_rest [OF assms(2)]
  from assms(3) have no: "insert_violates ''update'' ''customer'' (Str cid) (p_id u) d1"
    by (simp add: insert_violates_users [OF rest(2,3)])
  have a: "auditRecordChange B cx ''update'' ''customer'' cid
      (Some (customer_obj ex)) (Some ?upd) (p_id u) d1 = Some d1"
    using no by (simp add: auditRecordChange_def logActivity_def Let_def)
  from refetch [OF assms(1,2)] obtain c where
    "db_get (\<lambda>c. c_id c = Str cid) (customers d1) = Some c" by auto
  with a assms(1,2) rest(1) show ?thesis
    by (simp add: updateCustomer_def Let_def)
qed

lemma updateCustomer_rejected:
  assumes "db_get (\<lambda>c. c_id c = Str cid) (customers d) = Some ex"
    and "sql_update_customer B (updateData B cx u body ex) cid d = None"
  shows "updateCustomer B cx [] (Some u) cid body d = (reply 500 ''Failed to update customer'', d)"
  using assms by (simp add: updateCustomer_def Let_def)

lemma upd_keys:
  "map fst (updateData B cx u body ex) =
    [''name'', ''email'', ''phone'', ''company'', ''status'', ''tags'', ''notes'',
     ''lastContactDate'', ''value'', ''industry'', ''source'', ''assignedTo'',
     ''updatedBy'', ''updatedAt'']"
  by (simp add: updateData_def)

lemma upd_stamp:
  "obj_get (updateData B cx u body ex) ''updatedBy'' = p_id u"
  "obj_get (updateData B cx u body ex) ''updatedAt'' = Str (now_iso cx)"
  by (simp_all add: updateData_def obj_get_def)

lemma cust_get:
  "obj_get (customer_obj c) ''name'' = c_name c"
  "obj_get (customer_obj c) ''email'' = c_email c"
  "obj_get (customer_obj c) ''phone'' = c_phone c"
  "obj_get (customer_obj c) ''company'' = c_company c"
  "obj_get (customer_obj c) ''status'' = c_status c"
  "obj_get (customer_obj c) ''tags'' = c_tags c"
  "obj_get (customer_obj c) ''notes'' = c_notes c"
  "obj_get (customer_obj c) ''lastContactDate'' = c_lastContactDate c"
  "obj_get (customer_obj c) ''value'' = c_value c"
  "obj_get (customer_obj c) ''industry'' = c_industry c"
  "obj_get (customer_obj c) ''source'' = c_source c"
  "obj_get (customer_obj c) ''assignedTo'' = c_assignedTo c"
  "obj_get (customer_obj c) ''updatedBy'' = c_updatedBy c"
  "obj_get (customer_obj c) ''updatedAt'' = c_updatedAt c"
  by (simp_all add: customer_obj_def obj_get_def)

lemma diff_updateData:
  "diffChanges (customer_obj ex) (updateData B cx u body ex) =
     map (\<lambda>k. (k, obj_get (customer_obj ex) k, obj_get (updateData B cx u body ex) k))
       (filter (\<lambda>k. obj_get (customer_obj ex) k \<noteq> obj_get (updateData B cx u body ex) k)
          [''name'', ''email'', ''phone'', ''company'', ''status'', ''tags'', ''notes'',
           ''lastContactDate'', ''value'', ''industry'', ''source'', ''assignedTo'',
           ''updatedBy'', ''updatedAt''])"
proof -
  have "distinct (map fst (updateData B cx u body ex))"
    unfolding upd_keys by simp
  from diffChanges_distinct [OF this] show ?thesis
    unfolding upd_keys .
qed

lemma diff_entries:
  "(k, v, w) \<in> set (map (\<lambda>k. (k, f k, g k)) (filter (\<lambda>k. f k \<noteq> g k) ks)) \<longleftrightarrow>
     k \<in> set ks \<and> v = f k \<and> w = g k \<and> v \<noteq> w"
  by auto

text \<open>
  C5. An update of a customer whose row exists. When the \<open>UPDATE\<close> statement and the
  insert of the activity are accepted, the handler appends one update activity, and its
  change-set holds an entry \<open>{field: {from, to}}\<close> for exactly those of the fourteen
  properties of \<open>updateData\<close> whose new value is not strictly equal to the stored one.
  When \<open>status\<close> is the only one of the fourteen that differs from the stored row, the
  change-set is the one entry \<open>{status: {from, to}}\<close> with the stored and the new status.
  When the \<open>UPDATE\<close> is rejected, the handler answers 500 and leaves the store as it was;
  when only the insert of the activity is rejected, no activity is written.
\<close>

theorem update_change_set:
  assumes found: "db_get (\<lambda>c. c_id c = Str cid) (customers d) = Some ex"
  shows "(sql_update_customer B (updateData B cx u body ex) cid d = None \<longrightarrow>
            updateCustomer B cx [] (Some u) cid body d =
              (reply 500 ''Failed to update customer'', d)) \<and>
         (sql_update_customer B (updateData B cx u body ex) cid d \<noteq> None \<and>
          insert_violates ''update'' ''customer'' (Str cid) (p_id u) d \<longrightarrow>
            activities (snd (updateCustomer B cx [] (Some u) cid body d)) = activities d) \<and>
         (sql_update_customer B (updateData B cx u body ex) cid d \<noteq> None \<and>
          \<not> insert_violates ''update'' ''customer'' (Str cid) (p_id u) d \<longrightarrow>
     (\<exists>chg.
     map a_changes (activities (snd (updateCustomer B cx [] (Some u) cid body d))) =
       map a_changes (activities d) @ [Updated chg] \<and>
     (\<forall>k v w. (k, v, w) \<in> set chg \<longleftrightarrow>
        k \<in> set [''name'', ''email'', ''phone'', ''company'', ''status'', ''tags'', ''notes'',
                  ''lastContactDate'', ''value'', ''industry'', ''source'', ''assignedTo'',
                  ''updatedBy'', ''updatedAt''] \<and>
        v = obj_get (customer_obj ex) k \<and> w = obj_get (updateData B cx u body ex) k \<and> v \<noteq> w) \<and>
     ((\<forall>k \<in> {''name'', ''email'', ''phone'', ''company'', ''tags'', ''notes'',
               ''lastContactDate'', ''value'', ''industry'', ''source'', ''assignedTo'',
               ''updatedBy'', ''updatedAt''}.
          obj_get (updateData B cx u body ex) k = obj_get (customer_obj ex) k) \<and>
       obj_get (updateData B cx u body ex) ''status'' \<noteq> obj_get (customer_obj ex) ''status'' \<longrightarrow>
      chg = [(''status'', obj_get (customer_obj ex) ''status'',
                obj_get (updateData B cx u body ex) ''status'')])))"
proof (intro conjI impI)
  assume "sql_update_customer B (updateData B cx u body ex) cid d = None"
  with found show "updateCustomer B cx [] (Some u) cid body d =
      (reply 500 ''Failed to update customer'', d)"
    by (rule updateCustomer_rejected)
next
  assume h: "sql_update_customer B (updateData B cx u body ex) cid d \<noteq> None \<and>
          insert_violates ''update'' ''customer'' (Str cid) (p_id u) d"
  from h [THEN conjunct1] obtain d1 where
    accepted: "sql_update_customer B (updateData B cx u body ex) cid d = Some d1"
    by auto
  from found accepted h [THEN conjunct2]
  show "activities (snd (updateCustomer B cx [] (Some u) cid body d)) = activities d"
    by (rule updateCustomer_unlogged)
next
  assume h: "sql_update_customer B (updateData B cx u body ex) cid d \<noteq> None \<and>
          \<not> insert_violates ''update'' ''customer'' (Str cid) (p_id u) d"
  from h [THEN conjunct1] obtain d1 where
    accepted: "sql_update_customer B (updateData B cx u body ex) cid d = Some d1"
    by auto
  note logged = h [THEN conjunct2]
  show "(\<exists>chg.
     map a_changes (activities (snd (updateCustomer B cx [] (Some u) cid body d))) =
       map a_changes (activities d) @ [Updated chg] \<and>
     (\<forall>k v w. (k, v, w) \<in> set chg \<longleftrightarrow>
        k \<in> set [''name'', ''email'', ''phone'', ''company'', ''status'', ''tags'', ''notes'',
                  ''lastContactDate'', ''value'', ''industry'', ''source'', ''assignedTo'',
                  ''updatedBy'', ''updatedAt''] \<and>
        v = obj_get (customer_obj ex) k \<and> w = obj_get (updateData B cx u body ex) k \<and> v \<noteq> w) \<and>
     ((\<forall>k \<in> {''name'', ''email'', ''phone'', ''company'', ''tags'', ''notes'',
               ''lastContactDate'', ''value'', ''industry'', ''source'', ''assignedTo'',
               ''updatedBy'', ''updatedAt''}.
          obj_get (updateData B cx u body ex) k = obj_get (customer_obj ex) k) \<and>
       obj_get (updateData B cx u body ex) ''status'' \<noteq> obj_get (customer_obj ex) ''status'' \<longrightarrow>
      chg = [(''status'', obj_get (customer_obj ex) ''status'',
                obj_get (updateData B cx u body ex) ''status'')]))"
  proof (rule exI [of _ "diffChanges (customer_obj ex) (updateData B cx u body ex)"],
      intro conjI allI impI)
    show "map a_changes (activities (snd (updateCustomer B cx [] (Some u) cid body d))) =
        map a_changes (activities d) @
          [Updated (diffChanges (customer_obj ex) (updateData B cx u body ex))]"
      using found accepted logged by (rule updateCustomer_activities)
  next
    fix k v w
    show "(k, v, w) \<in> set (diffChanges (customer_obj ex) (updateData B cx u body ex)) \<longleftrightarrow>
          k \<in> set [''name'', ''email'', ''phone'', ''company'', ''status'', ''tags'', ''notes'',
                    ''lastContactDate'', ''value'', ''industry'', ''source'', ''assignedTo'',
                    ''updatedBy'', ''updatedAt''] \<and>
          v = obj_get (customer_obj ex) k \<and> w = obj_get (updateData B cx u body ex) k \<and> v \<noteq> w"
      unfolding diff_updateData by (rule diff_entries)
  next
    assume both: "(\<forall>k \<in> {''name'', ''email'', ''phone'', ''company'', ''tags'', ''notes'',
                 ''lastContactDate'', ''value'', ''industry'', ''source'', ''assignedTo'',
                 ''updatedBy'', ''updatedAt''}.
            obj_get (updateData B cx u body ex) k = obj_get (customer_obj ex) k) \<and>
         obj_get (updateData B cx u body ex) ''status'' \<noteq> obj_get (customer_obj ex) ''status''"
    note same = both [THEN conjunct1] and status = both [THEN conjunct2]
    show "diffChanges (customer_obj ex) (updateData B cx u body ex) =
        [(''status'', obj_get (customer_obj ex) ''status'',
            obj_get (updateData B cx u body ex) ''status'')]"
      unfolding diff_updateData using same status by simp
  qed
qed

lemma crm0_c1: "db_get (\<lambda>c. c_id c = Str ''C1'') (customers crm0) = Some customer_c1"
  by (simp add: db_get_def crm0_def initialize_def customer_c1_def)

lemma upd_c1:
  "updateData test_builtins (ctx_at ms text) rep_u2 status_body customer_c1 =
    [(''name'', Str ''Acme''), (''email'', Null), (''phone'', Null), (''company'', Str ''Acme''),
     (''status'', Str ''inactive''), (''tags'', Null), (''notes'', Null),
     (''lastContactDate'', Str ''2024-01-01T00:00:00.000Z''), (''value'', Num 0),
     (''industry'', Null), (''source'', Null), (''assignedTo'', Str ''U2''),
     (''updatedBy'', Str ''U2''), (''updatedAt'', Str text)]"
  by (simp add: updateData_def obj_get_def js_or_def status_body_def customer_c1_def rep_u2_def
      ctx_at_def ctx_of_def)

lemma accepted_c1:
  "sql_update_customer test_builtins
     (updateData test_builtins (ctx_at ms text) rep_u2 status_body customer_c1) ''C1'' crm0 \<noteq> None"
proof -
  have u: "users crm0 = [user_bo]" and f: "foreign_keys crm0"
    by (simp_all add: crm0_def initialize_def)
  have "\<not> update_violates test_builtins
      (updateData test_builtins (ctx_at ms text) rep_u2 status_body customer_c1) crm0"
    unfolding upd_c1 using u f
    by (simp add: update_violates_def bound_def references_user_def obj_get_def test_builtins_def
        user_bo_def)
  then show ?thesis
    by (simp add: sql_update_customer_def)
qed

lemma logged_c1: "\<not> insert_violates ''update'' ''customer'' (Str ''C1'') (p_id rep_u2) crm0"
  by (simp add: insert_violates_def references_user_def crm0_def initialize_def user_bo_def
      rep_u2_def)

lemma diff_c1:
  "diffChanges (customer_obj customer_c1)
     (updateData test_builtins (ctx_at 1706745600000 ''2024-02-01T00:00:00.000Z'') rep_u2 status_body
        customer_c1) =
   [(''status'', Str ''active'', Str ''inactive''),
    (''updatedAt'', Str ''2024-01-01T00:00:00.000Z'', Str ''2024-02-01T00:00:00.000Z'')]"
  unfolding upd_c1 by (simp add: diffChanges_def customer_obj_def obj_get_def customer_c1_def)

text \<open>
  The time of the update is one of the fourteen properties. A request that sets the
  status of customer C1 a month after the row was last written differs from the stored
  row in \<open>status\<close> and in \<open>updatedAt\<close>, and the change-set has both entries.
\<close>

lemma update_a_month_later:
  "map a_changes (activities (snd (updateCustomer test_builtins
      (ctx_at 1706745600000 ''2024-02-01T00:00:00.000Z'') [] (Some rep_u2) ''C1'' status_body crm0))) =
     [Updated [(''status'', Str ''active'', Str ''inactive''),
               (''updatedAt'', Str ''2024-01-01T00:00:00.000Z'',
                  Str ''2024-02-01T00:00:00.000Z'')]]"
proof -
  have none: "activities crm0 = []"
    by (simp add: crm0_def initialize_def)
  from accepted_c1 [of 1706745600000 "''2024-02-01T00:00:00.000Z''"] obtain d1 where
    "sql_update_customer test_builtins
       (updateData test_builtins (ctx_at 1706745600000 ''2024-02-01T00:00:00.000Z'') rep_u2
          status_body customer_c1) ''C1'' crm0 = Some d1"
    by auto
  from updateCustomer_activities [OF crm0_c1 this logged_c1] none show ?thesis
    by (simp add: diff_c1)
qed

theorem update_change_set_witness:
  "map a_changes (activities (snd (updateCustomer test_builtins
      (ctx_at 1704067200000 ''2024-01-01T00:00:00.000Z'') [] (Some rep_u2) ''C1'' status_body crm0))) =
     [Updated [(''status'', Str ''active'', Str ''inactive'')]]"
proof -
  let ?cx = "ctx_at 1704067200000 ''2024-01-01T00:00:00.000Z''"
  have same: "\<forall>k \<in> {''name'', ''email'', ''phone'', ''company'', ''tags'', ''notes'',
                       ''lastContactDate'', ''value'', ''industry'', ''source'', ''assignedTo'',
                       ''updatedBy'', ''updatedAt''}.
      obj_get (updateData test_builtins ?cx rep_u2 status_body customer_c1) k =
      obj_get (customer_obj customer_c1) k"
    unfolding upd_c1 by (simp add: customer_obj_def obj_get_def customer_c1_def)
  have status: "obj_get (updateData test_builtins ?cx rep_u2 status_body customer_c1) ''status''
      \<noteq> obj_get (customer_obj customer_c1) ''status''"
    unfolding upd_c1 by (simp add: customer_obj_def obj_get_def customer_c1_def)
  have none: "activities crm0 = []"
    by (simp add: crm0_def initialize_def)
  note accepted = accepted_c1 [of 1704067200000 "''2024-01-01T00:00:00.000Z''"]
  from update_change_set [OF crm0_c1, of test_builtins ?cx rep_u2 status_body,
      THEN conjunct2, THEN conjunct2, rule_format, OF conjI [OF accepted logged_c1]] same status
  obtain chg where
    "map a_changes (activities (snd (updateCustomer test_builtins ?cx [] (Some rep_u2) ''C1''
        status_body crm0))) = map a_changes (activities crm0) @ [Updated chg]"
    and "chg = [(''status'', obj_get (customer_obj customer_c1) ''status'',
                obj_get (updateData test_builtins ?cx rep_u2 status_body customer_c1) ''status'')]"
    by blast
  then show ?thesis
    unfolding upd_c1 using none by (simp add: customer_obj_def obj_get_def customer_c1_def)
qed

section \<open>Properties of the customer delete\<close>

lemma auditRecordChange_delete:
  "\<exists>d2. auditRecordChange B cx ''delete'' rt ri (Some old) nd us d = Some d2 \<and>
        leads d2 = leads d \<and> customers d2 = customers d"
  by (simp add: auditRecordChange_def logActivity_def)

lemma deleteCustomer_found:
  assumes "db_get (\<lambda>c. c_id c = Str cid) (customers d) = Some ex"
  shows "fst (deleteCustomer B cx (Some u) cid d) =
           ok_reply 200 ''Customer deleted successfully'' None \<and>
         leads (snd (deleteCustomer B cx (Some u) cid d)) = leads (sql_delete_customer cid d)"
proof -
  obtain d2 where "auditRecordChange B cx ''delete'' ''customer'' cid
      (Some (customer_obj ex)) None (p_id u) (sql_delete_customer cid d) = Some d2"
    and "leads d2 = leads (sql_delete_customer cid d)"
    using auditRecordChange_delete by blast
  with assms show ?thesis
    by (simp add: deleteCustomer_def Let_def)
qed

lemma deleteCustomer_ok:
  assumes "res_status (fst (deleteCustomer B cx user cid d)) = 200"
  shows "(\<exists>ex. db_get (\<lambda>c. c_id c = Str cid) (customers d) = Some ex) \<and>
         leads (snd (deleteCustomer B cx user cid d)) = leads (sql_delete_customer cid d)"
proof (cases "db_get (\<lambda>c. c_id c = Str cid) (customers d)")
  case None
  with assms show ?thesis by (simp add: deleteCustomer_def reply_def)
next
  case (Some ex)
  show ?thesis
  proof (cases user)
    case None
    with assms Some show ?thesis by (simp add: deleteCustomer_def reply_def Let_def)
  next
    case (Some u)
    with deleteCustomer_found [OF \<open>db_get (\<lambda>c. c_id c = Str cid) (customers d) = Some ex\<close>, of B cx u]
    show ?thesis using \<open>db_get (\<lambda>c. c_id c = Str cid) (customers d) = Some ex\<close> by simp
  qed
qed

lemma cascade_leads:
  assumes "foreign_keys d" and "db_get (\<lambda>c. c_id c = Str cid) (customers d) = Some ex"
  shows "leads (sql_delete_customer cid d) = filter (\<lambda>l. l_customerId l \<noteq> Str cid) (leads d)"
proof -
  from assms(2) have "list_ex (\<lambda>c. c_id c = Str cid) (customers d)"
    by (auto simp: list_ex_iff dest: db_get_Some)
  with assms(1) show ?thesis by (simp add: sql_delete_customer_def)
qed

text \<open>
  C9. With foreign keys enabled and lead ids unique (the primary key), after a successful
  delete of a customer no lead that referenced the customer can be fetched by its id:
  the lookup finds no row and \<open>getLeadById\<close> answers 404. The customer rows with the id
  are gone as well.
\<close>

theorem deleteCustomer_cascade:
  assumes fk: "foreign_keys d"
    and pk: "distinct (map l_id (leads d))"
    and ok: "res_status (fst (deleteCustomer B cx user cid d)) = 200"
    and lead: "l \<in> set (leads d)" "l_customerId l = Str cid" "l_id l = Str lid"
  shows "db_get (\<lambda>l. l_id l = Str lid) (leads (snd (deleteCustomer B cx user cid d))) = None \<and>
         getLeadById lid (snd (deleteCustomer B cx user cid d)) = reply 404 ''Lead not found'' \<and>
         customers (snd (deleteCustomer B cx user cid d)) =
           filter (\<lambda>c. c_id c \<noteq> Str cid) (customers d)"
proof -
  from deleteCustomer_ok [OF ok] obtain ex where
    found: "db_get (\<lambda>c. c_id c = Str cid) (customers d) = Some ex"
    and ls: "leads (snd (deleteCustomer B cx user cid d)) = leads (sql_delete_customer cid d)"
    by blast
  have ls': "leads (snd (deleteCustomer B cx user cid d)) =
      filter (\<lambda>l. l_customerId l \<noteq> Str cid) (leads d)"
    using ls cascade_leads [OF fk found] by simp
  have inj: "inj_on l_id (set (leads d))"
    using pk by (simp add: distinct_map)
  have none: "db_get (\<lambda>l. l_id l = Str lid) (leads (snd (deleteCustomer B cx user cid d))) = None"
  proof -
    have "\<not> l_id l' = Str lid" if "l' \<in> set (filter (\<lambda>l. l_customerId l \<noteq> Str cid) (leads d))" for l'
    proof
      assume "l_id l' = Str lid"
      moreover from that have "l' \<in> set (leads d)" by simp
      ultimately have "l' = l"
        using lead inj by (simp add: inj_on_def)
      with that lead show False by simp
    qed
    then show ?thesis unfolding ls' db_get_None by blast
  qed
  have cs: "customers (snd (deleteCustomer B cx user cid d)) =
           filter (\<lambda>c. c_id c \<noteq> Str cid) (customers d)"
  proof (cases user)
    case None
    with ok found show ?thesis by (simp add: deleteCustomer_def reply_def Let_def)
  next
    case (Some u)
    obtain d2 where "auditRecordChange B cx ''delete'' ''customer'' cid
      (Some (customer_obj ex)) None (p_id u) (sql_delete_customer cid d) = Some d2"
      and "customers d2 = customers (sql_delete_customer cid d)"
      using auditRecordChange_delete by blast
    with Some found show ?thesis
      by (simp add: deleteCustomer_def Let_def sql_delete_customer_def)
  qed
  from none cs show ?thesis by (simp add: getLeadById_def)
qed

theorem deleteCustomer_cascade_witness:
  "getLeadById ''L1'' crm0 \<noteq> reply 404 ''Lead not found'' \<and>
   getLeadById ''L1'' (snd (deleteCustomer test_builtins (ctx_at 1706745600000 ''2024-02-01T00:00:00.000Z'') (Some admin_u1) ''C1'' crm0)) =
     reply 404 ''Lead not found'' \<and>
   getLeadById ''L2'' (snd (deleteCustomer test_builtins (ctx_at 1706745600000 ''2024-02-01T00:00:00.000Z'') (Some admin_u1) ''C1'' crm0)) =
     reply 404 ''Lead not found''"
proof -
  have fk: "foreign_keys crm0"
    by (simp add: crm0_def initialize_def)
  have pk: "distinct (map l_id (leads crm0))"
    by (simp add: crm0_def initialize_def lead_of_def)
  have ok: "res_status (fst (deleteCustomer test_builtins (ctx_at 1706745600000 ''2024-02-01T00:00:00.000Z'') (Some admin_u1) ''C1'' crm0)) = 200"
    using deleteCustomer_found [OF crm0_c1, of test_builtins "ctx_at 1706745600000 ''2024-02-01T00:00:00.000Z''" admin_u1]
    by (simp add: ok_reply_def)
  have l1: "lead_of ''L1'' ''C1'' \<in> set (leads crm0)" "l_customerId (lead_of ''L1'' ''C1'') = Str ''C1''"
    "l_id (lead_of ''L1'' ''C1'') = Str ''L1''"
    by (simp_all add: crm0_def initialize_def lead_of_def)
  have l2: "lead_of ''L2'' ''C1'' \<in> set (leads crm0)" "l_customerId (lead_of ''L2'' ''C1'') = Str ''C1''"
    "l_id (lead_of ''L2'' ''C1'') = Str ''L2''"
    by (simp_all add: crm0_def initialize_def lead_of_def)
  have before: "getLeadById ''L1'' crm0 \<noteq> reply 404 ''Lead not found''"
    by (simp add: getLeadById_def db_get_def crm0_def initialize_def lead_of_def reply_def)
  show ?thesis
    using before deleteCustomer_cascade [OF fk pk ok l1] deleteCustomer_cascade [OF fk pk ok l2]
    by simp
qed


section \<open>Properties of the lockout\<close>

lemma db_get_by_id:
  "distinct (map u_id us) \<Longrightarrow> user \<in> set us \<Longrightarrow> db_get (\<lambda>u. u_id u = u_id user) us = Some user"
  unfolding db_get_def by (induction us) (auto simp: rev_image_eqI)

lemma logins_append: "logins L cfg (xs @ ys) d = logins L cfg ys (logins L cfg xs d)"
  by (induction xs arbitrary: d) simp_all

lemma failed_login_step:
  assumes pk: "distinct (map u_id (users d))"
    and known: "db_get (\<lambda>u. u_email u = lb_email body) (users d) = Some user"
    and unlocked: "\<not> isAccountLocked user (now_ms cx)"
    and active: "u_isActive user = Some a" "a \<noteq> 0"
    and wrong: "\<not> bcrypt_compare L (lb_password body) (u_password user)"
  shows "fst (login L cfg cx [] body d) = reply 401 ''Invalid credentials'' \<and>
         distinct (map u_id (users (snd (login L cfg cx [] body d)))) \<and>
         db_get (\<lambda>u. u_email u = lb_email body) (users (snd (login L cfg cx [] body d))) =
           Some (user\<lparr>u_loginAttempts := Some (attempts_of user + 1),
                      u_lockUntil := (if attempts_of user + 1 \<ge> maxLoginAttempts cfg
                                      then Some (now_ms cx + lockTime cfg) else None)\<rparr>)"
proof -
  define f :: "user_row \<Rightarrow> user_row" where "f = (\<lambda>u. if u_id u = u_id user
      then u\<lparr>u_loginAttempts := Some (attempts_of user + 1),
             u_lockUntil := (if attempts_of user + 1 \<ge> maxLoginAttempts cfg
                             then Some (now_ms cx + lockTime cfg) else None)\<rparr>
      else u)"
  have f_id: "u_id (f u) = u_id u" and f_email: "u_email (f u) = u_email u" for u :: user_row
    by (simp_all add: f_def)
  have f_user: "f user = user\<lparr>u_loginAttempts := Some (attempts_of user + 1),
             u_lockUntil := (if attempts_of user + 1 \<ge> maxLoginAttempts cfg
                             then Some (now_ms cx + lockTime cfg) else None)\<rparr>"
    by (simp add: f_def)
  from known have mem: "user \<in> set (users d)" by (auto dest: db_get_Some)
  have byid: "db_get (\<lambda>u. u_id u = u_id user) (users d) = Some user"
    using pk mem by (rule db_get_by_id)
  have inc: "incrementLoginAttempts cfg (now_ms cx) (u_id user) d =
      Some (d\<lparr>users := map f (users d)\<rparr>)"
    using byid by (simp add: incrementLoginAttempts_def attempts_of_def Let_def f_def)
  have res: "login L cfg cx [] body d =
      (reply 401 ''Invalid credentials'', d\<lparr>users := map f (users d)\<rparr>)"
    using known unlocked active wrong inc by (simp add: login_def)
  have ids: "map u_id (map f (users d)) = map u_id (users d)"
    by (simp add: f_id)
  have "find (\<lambda>u. u_email u = lb_email body) (map f (users d)) =
      map_option f (find (\<lambda>u. u_email u = lb_email body) (users d))"
    by (rule find_map_keep) (simp add: f_email)
  then have look: "db_get (\<lambda>u. u_email u = lb_email body) (map f (users d)) = Some (f user)"
    using known by (simp add: db_get_def)
  have d1: "distinct (map u_id (map f (users d)))"
    unfolding ids by (rule pk)
  have sel: "users (d\<lparr>users := map f (users d)\<rparr>) = map f (users d)"
    by simp
  show ?thesis
    unfolding res fst_conv snd_conv sel using d1 look f_user by simp
qed


lemma failed_logins_below:
  assumes pk: "distinct (map u_id (users d))"
    and known: "db_get (\<lambda>u. u_email u = e) (users d) = Some user"
    and nolock: "u_lockUntil user = None"
    and active: "u_isActive user = Some a" "a \<noteq> 0"
    and wrong: "\<forall>r \<in> set reqs. lb_email (snd r) = e \<and>
                  \<not> bcrypt_compare L (lb_password (snd r)) (u_password user)"
    and below: "attempts_of user + int (length reqs) < maxLoginAttempts cfg"
  shows "\<exists>user'. distinct (map u_id (users (logins L cfg reqs d))) \<and>
           db_get (\<lambda>u. u_email u = e) (users (logins L cfg reqs d)) = Some user' \<and>
           attempts_of user' = attempts_of user + int (length reqs) \<and>
           u_lockUntil user' = None \<and> u_isActive user' = Some a \<and>
           u_password user' = u_password user"
  using assms
proof (induction reqs arbitrary: d user)
  case Nil
  then show ?case by simp
next
  case (Cons r rest)
  let ?d1 = "snd (login L cfg (fst r) [] (snd r) d)"
  let ?u1 = "user\<lparr>u_loginAttempts := Some (attempts_of user + 1), u_lockUntil := None\<rparr>"
  from Cons.prems have e: "lb_email (snd r) = e"
    and w: "\<not> bcrypt_compare L (lb_password (snd r)) (u_password user)"
    by simp_all
  have unlocked: "\<not> isAccountLocked user (now_ms (fst r))"
    using Cons.prems(3) by (simp add: isAccountLocked_def)
  have known': "db_get (\<lambda>u. u_email u = lb_email (snd r)) (users d) = Some user"
    using Cons.prems(2) e by simp
  have small: "\<not> attempts_of user + 1 \<ge> maxLoginAttempts cfg"
    using Cons.prems(7) by simp
  from failed_login_step [OF Cons.prems(1) known' unlocked Cons.prems(4,5) w, of cfg] small e
  have pk1: "distinct (map u_id (users ?d1))"
    and known1: "db_get (\<lambda>u. u_email u = e) (users ?d1) = Some ?u1"
    by simp_all
  have a1: "attempts_of ?u1 = attempts_of user + 1"
    by (simp add: attempts_of_def)
  have "\<exists>user'. distinct (map u_id (users (logins L cfg rest ?d1))) \<and>
           db_get (\<lambda>u. u_email u = e) (users (logins L cfg rest ?d1)) = Some user' \<and>
           attempts_of user' = attempts_of ?u1 + int (length rest) \<and>
           u_lockUntil user' = None \<and> u_isActive user' = Some a \<and>
           u_password user' = u_password ?u1"
  proof (rule Cons.IH [OF pk1 known1])
    show "u_lockUntil ?u1 = None" by simp
    show "u_isActive ?u1 = Some a" using Cons.prems(4) by simp
    show "a \<noteq> 0" by (rule Cons.prems(5))
    show "\<forall>r \<in> set rest. lb_email (snd r) = e \<and>
            \<not> bcrypt_compare L (lb_password (snd r)) (u_password ?u1)"
      using Cons.prems(6) by simp
    show "attempts_of ?u1 + int (length rest) < maxLoginAttempts cfg"
      using Cons.prems(7) a1 by simp
  qed
  then obtain u' where "distinct (map u_id (users (logins L cfg rest ?d1)))"
    and "db_get (\<lambda>u. u_email u = e) (users (logins L cfg rest ?d1)) = Some u'"
    and "attempts_of u' = attempts_of ?u1 + int (length rest)"
    and "u_lockUntil u' = None" and "u_isActive u' = Some a"
    and "u_password u' = u_password ?u1"
    by blast
  then show ?case
    using a1 by (intro exI [of _ u']) simp
qed

lemma locked_login:
  assumes "db_get (\<lambda>u. u_email u = lb_email body) (users d) = Some user"
    and "u_lockUntil user = Some l" and "l \<noteq> 0" and "l > now_ms cx"
  shows "fst (login L cfg cx [] body d) =
           reply 423 ''Account temporarily locked due to too many failed login attempts''"
  using assms by (simp add: login_def isAccountLocked_def)

text \<open>
  C3. An account whose failure counter is clear receives as many logins with a wrong
  password as the threshold says. Whatever password the next login for the account
  supplies, the matching one included, it is answered with status 423 as long as its
  time is before the lock expiry, which is the time of the last failure plus the lock
  time: the lock is tested before the password. User ids are unique (the primary key),
  and the failed logins are those of an active account, since only they reach the
  password check.
\<close>

theorem lockout_after_threshold:
  assumes pk: "distinct (map u_id (users d))"
    and known: "db_get (\<lambda>u. u_email u = e) (users d) = Some user"
    and fresh: "u_loginAttempts user = None \<or> u_loginAttempts user = Some 0"
      "u_lockUntil user = None"
    and active: "u_isActive user = Some a" "a \<noteq> 0"
    and threshold: "0 < maxLoginAttempts cfg" "length reqs = nat (maxLoginAttempts cfg)"
    and wrong: "\<forall>r \<in> set reqs. lb_email (snd r) = e \<and>
                  \<not> bcrypt_compare L (lb_password (snd r)) (u_password user)"
    and future: "0 \<le> now_ms cx" "now_ms cx < now_ms (fst (last reqs)) + lockTime cfg"
    and same: "lb_email body = e"
  shows "fst (login L cfg cx [] body (logins L cfg reqs d)) =
           reply 423 ''Account temporarily locked due to too many failed login attempts''"
proof -
  from threshold have ne: "reqs \<noteq> []" by auto
  then have split: "reqs = butlast reqs @ [last reqs]" by simp
  let ?d1 = "logins L cfg (butlast reqs) d"
  let ?r = "last reqs"
  have a0: "attempts_of user = 0"
    using fresh(1) by (auto simp: attempts_of_def)
  have w1: "\<forall>r \<in> set (butlast reqs). lb_email (snd r) = e \<and>
              \<not> bcrypt_compare L (lb_password (snd r)) (u_password user)"
    using wrong by (auto dest: in_set_butlastD)
  have len: "int (length (butlast reqs)) = maxLoginAttempts cfg - 1"
    using threshold by simp
  have below: "attempts_of user + int (length (butlast reqs)) < maxLoginAttempts cfg"
    using a0 len by simp
  from failed_logins_below [OF pk known fresh(2) active w1 below]
  obtain u1 where pk1: "distinct (map u_id (users ?d1))"
    and known1: "db_get (\<lambda>u. u_email u = e) (users ?d1) = Some u1"
    and att1: "attempts_of u1 = attempts_of user + int (length (butlast reqs))"
    and lock1: "u_lockUntil u1 = None" and act1: "u_isActive u1 = Some a"
    and pw1: "u_password u1 = u_password user"
    by blast
  from wrong ne have er: "lb_email (snd ?r) = e"
    and wr: "\<not> bcrypt_compare L (lb_password (snd ?r)) (u_password u1)"
    using pw1 by simp_all
  have unlocked: "\<not> isAccountLocked u1 (now_ms (fst ?r))"
    using lock1 by (simp add: isAccountLocked_def)
  have known1': "db_get (\<lambda>u. u_email u = lb_email (snd ?r)) (users ?d1) = Some u1"
    using known1 er by simp
  have reach: "attempts_of u1 + 1 \<ge> maxLoginAttempts cfg"
    using att1 a0 len by simp
  let ?d2 = "snd (login L cfg (fst ?r) [] (snd ?r) ?d1)"
  from failed_login_step [OF pk1 known1' unlocked act1 active(2) wr, of cfg] reach er
  have known2: "db_get (\<lambda>u. u_email u = e) (users ?d2) =
      Some (u1\<lparr>u_loginAttempts := Some (attempts_of u1 + 1),
               u_lockUntil := Some (now_ms (fst ?r) + lockTime cfg)\<rparr>)"
    by simp
  have d2: "logins L cfg reqs d = ?d2"
    by (subst split) (simp add: logins_append)
  have "fst (login L cfg cx [] body ?d2) =
           reply 423 ''Account temporarily locked due to too many failed login attempts''"
  proof (rule locked_login)
    show "db_get (\<lambda>u. u_email u = lb_email body) (users ?d2) =
      Some (u1\<lparr>u_loginAttempts := Some (attempts_of u1 + 1),
               u_lockUntil := Some (now_ms (fst ?r) + lockTime cfg)\<rparr>)"
      using known2 same by simp
    show "u_lockUntil (u1\<lparr>u_loginAttempts := Some (attempts_of u1 + 1),
               u_lockUntil := Some (now_ms (fst ?r) + lockTime cfg)\<rparr>) =
        Some (now_ms (fst ?r) + lockTime cfg)"
      by simp
    show "now_ms (fst ?r) + lockTime cfg \<noteq> 0" using future by simp
    show "now_ms (fst ?r) + lockTime cfg > now_ms cx" using future by simp
  qed
  then show ?thesis
    unfolding d2 .
qed


lemma crm0_bo: "db_get (\<lambda>u. u_email u = ''bo@crm.com'') (users crm0) = Some user_bo"
  by (simp add: db_get_def crm0_def initialize_def user_bo_def)

theorem lockout_after_threshold_witness:
  "bcrypt_compare test_lib ''secret'' (u_password user_bo) \<and>
   fst (login test_lib test_config (ctx_at 6000 ''1970-01-01T00:00:06.000Z'') []
          \<lparr>lb_email = ''bo@crm.com'', lb_password = ''secret''\<rparr>
          (logins test_lib test_config five_guesses crm0)) =
     reply 423 ''Account temporarily locked due to too many failed login attempts''"
proof -
  have pk: "distinct (map u_id (users crm0))"
    by (simp add: crm0_def initialize_def)
  have fresh: "u_loginAttempts user_bo = None \<or> u_loginAttempts user_bo = Some 0"
    "u_lockUntil user_bo = None"
    by (simp_all add: user_bo_def)
  have active: "u_isActive user_bo = Some 1" "(1::int) \<noteq> 0"
    by (simp_all add: user_bo_def)
  have threshold: "0 < maxLoginAttempts test_config"
    "length five_guesses = nat (maxLoginAttempts test_config)"
    by (simp_all add: test_config_def five_guesses_def)
  have wrong: "\<forall>r \<in> set five_guesses. lb_email (snd r) = ''bo@crm.com'' \<and>
      \<not> bcrypt_compare test_lib (lb_password (snd r)) (u_password user_bo)"
    by (simp add: five_guesses_def test_lib_def user_bo_def)
  have future: "0 \<le> now_ms (ctx_at 6000 ''1970-01-01T00:00:06.000Z'')"
    "now_ms (ctx_at 6000 ''1970-01-01T00:00:06.000Z'') < now_ms (fst (last five_guesses)) + lockTime test_config"
    by (simp_all add: five_guesses_def ctx_at_def ctx_of_def test_config_def)
  have same: "lb_email \<lparr>lb_email = ''bo@crm.com'', lb_password = ''secret''\<rparr> = ''bo@crm.com''"
    by simp
  have right: "bcrypt_compare test_lib ''secret'' (u_password user_bo)"
    by (simp add: test_lib_def user_bo_def)
  from right lockout_after_threshold [OF pk crm0_bo fresh active threshold wrong future same]
  show ?thesis by simp
qed

section \<open>Properties of token rotation\<close>

lemma rotated_rows:
  assumes "new \<noteq> tok"
  shows "\<forall>r \<in> set (refresh_tokens (storeRefreshToken tid now uid new (removeRefreshToken tok d))).
           rt_token r \<noteq> tok"
  using assms by (auto simp: storeRefreshToken_def removeRefreshToken_def Let_def)

lemma refresh_success:
  assumes "refreshToken L cfg cx (Some tok) d = (r, d')" and "res_data r = Some data"
  shows "tok \<noteq> [] \<and> d' = storeRefreshToken (uuid_a cx) (now_ms cx)
           (pl_userId (the (jwt_verify L tok (jwt_refreshSecret cfg) (now_ms cx))))
           (ld_refreshToken data) (removeRefreshToken tok d)"
  using assms
  by (auto simp: refreshToken_def reply_def ok_reply_def Let_def
      split: if_splits option.splits prod.splits dest!: db_get_Some)

text \<open>
  What rotation achieves: when a refresh succeeds and the token it issues is not the
  token that was presented, a second refresh with the presented token fails with status
  401 and changes nothing, because no stored row holds that token any more.
\<close>

lemma refresh_after_rotation:
  assumes first: "refreshToken L cfg cx1 (Some tok) d = (r1, d1)"
    and succeeded: "res_data r1 = Some data"
    and rotated: "ld_refreshToken data \<noteq> tok"
  shows "fst (refreshToken L cfg cx2 (Some tok) d1) \<in>
           {reply 401 ''Invalid refresh token'', reply 401 ''Invalid or expired refresh token''} \<and>
         snd (refreshToken L cfg cx2 (Some tok) d1) = d1"
proof -
  from refresh_success [OF first succeeded] have ne: "tok \<noteq> []"
    and d1: "d1 = storeRefreshToken (uuid_a cx1) (now_ms cx1)
           (pl_userId (the (jwt_verify L tok (jwt_refreshSecret cfg) (now_ms cx1))))
           (ld_refreshToken data) (removeRefreshToken tok d)"
    by simp_all
  have "\<forall>r \<in> set (refresh_tokens d1). rt_token r \<noteq> tok"
    unfolding d1 using rotated by (rule rotated_rows)
  then have gone: "db_get (\<lambda>r. rt_token r = tok \<and> rt_userId r = uid \<and> rt_expiresAt r > t)
      (refresh_tokens d1) = None" for uid t
    by (simp add: db_get_None)
  show ?thesis
    using ne gone by (simp add: refreshToken_def split: option.splits)
qed


lemma bo_token_nonempty: "bo_refresh_token \<noteq> []"
  by (simp add: bo_refresh_token_def)

lemma bo_token_verifies:
  "jwt_verify test_lib bo_refresh_token (jwt_refreshSecret test_config) now =
     Some \<lparr>pl_userId = ''U2'', pl_email = ''bo@crm.com'', pl_role = ''sales_rep''\<rparr>"
  by (simp add: test_lib_def test_config_def bo_refresh_token_def)

lemma bo_tokens_in_second_1:
  "now div 1000 = 1 \<Longrightarrow>
   generateTokens test_lib test_config now ''U2'' ''bo@crm.com'' ''sales_rep'' =
     (bo_access_token, bo_refresh_token)"
  by (simp add: generateTokens_def test_lib_def test_config_def Let_def
      bo_access_token_def bo_refresh_token_def)

lemma bo_login_succeeds:
  "login test_lib test_config (ctx_of 1000 ''1970-01-01T00:00:01.000Z'' ''id-1'' ''id-2'') []
     bo_login crm0 =
   (ok_reply 200 ''Login successful''
      (Some \<lparr>ld_user = userWithoutSensitiveData user_bo, ld_accessToken = bo_access_token,
              ld_refreshToken = bo_refresh_token\<rparr>),
    crm1)"
proof -
  let ?cx = "ctx_of 1000 ''1970-01-01T00:00:01.000Z'' ''id-1'' ''id-2''"
  have known: "db_get (\<lambda>u. u_email u = lb_email bo_login) (users crm0) = Some user_bo"
    by (simp add: db_get_def crm0_def initialize_def user_bo_def bo_login_def)
  have unlocked: "\<not> isAccountLocked user_bo (now_ms ?cx)"
    by (simp add: isAccountLocked_def user_bo_def)
  have active: "u_isActive user_bo = Some 1"
    by (simp add: user_bo_def)
  have right: "bcrypt_compare test_lib (lb_password bo_login) (u_password user_bo)"
    by (simp add: test_lib_def user_bo_def bo_login_def)
  have g: "generateTokens test_lib test_config (now_ms ?cx) (u_id user_bo) (u_email user_bo)
      (u_role user_bo) = (bo_access_token, bo_refresh_token)"
    using bo_tokens_in_second_1 [of 1000] by (simp add: ctx_of_def user_bo_def)
  have st: "logActivity (uuid_b ?cx) ?cx ''login'' ''user'' (Str (u_id user_bo)) ''User logged in''
      NoChanges (Str (u_id user_bo))
      (storeRefreshToken (uuid_a ?cx) (now_ms ?cx) (u_id user_bo) bo_refresh_token
        ((resetLoginAttempts (u_id user_bo) crm0)
          \<lparr>users := map (\<lambda>u. if u_id u = u_id user_bo
                           then u\<lparr>u_lastLoginAt := Some (now_iso ?cx)\<rparr> else u)
                       (users (resetLoginAttempts (u_id user_bo) crm0))\<rparr>)) = crm1"
    by (simp add: logActivity_def insert_violates_def references_user_def storeRefreshToken_def
        resetLoginAttempts_def crm1_def crm0_def initialize_def ctx_of_def user_bo_def js_or_def
        Let_def)
  show ?thesis
    using known unlocked active right g st by (simp add: login_def Let_def)
qed

lemma bo_active:
  "db_get (\<lambda>u. u_id u = ''U2'' \<and> u_isActive u = Some 1) (users crm1) =
     Some (user_bo\<lparr>u_lastLoginAt := Some ''1970-01-01T00:00:01.000Z''\<rparr>)"
  by (simp add: db_get_def crm1_def user_bo_def)

lemma bo_refresh_user:
  "refreshUser (user_bo\<lparr>u_lastLoginAt := Some ''1970-01-01T00:00:01.000Z''\<rparr>) =
     refreshUser user_bo"
  by (simp add: refreshUser_def)

lemma same_second_first:
  "refreshToken test_lib test_config (ctx_of 1500 ''1970-01-01T00:00:01.500Z'' ''id-3'' ''id-4'')
     (Some bo_refresh_token) crm1 =
     (ok_reply 200 ''Token refreshed successfully''
        (Some \<lparr>ld_user = refreshUser user_bo, ld_accessToken = bo_access_token,
                ld_refreshToken = bo_refresh_token\<rparr>),
      crm1\<lparr>refresh_tokens :=
        [\<lparr>rt_id = ''id-3'', rt_userId = ''U2'', rt_token = bo_refresh_token,
          rt_expiresAt = 1500 + 7 * 24 * 60 * 60 * 1000\<rparr>]\<rparr>)"
proof -
  let ?cx = "ctx_of 1500 ''1970-01-01T00:00:01.500Z'' ''id-3'' ''id-4''"
  let ?bo = "user_bo\<lparr>u_lastLoginAt := Some ''1970-01-01T00:00:01.000Z''\<rparr>"
  have t: "db_get (\<lambda>r. rt_token r = bo_refresh_token \<and> rt_userId r = ''U2'' \<and>
                        rt_expiresAt r > now_ms ?cx) (refresh_tokens crm1) =
      Some \<lparr>rt_id = ''id-1'', rt_userId = ''U2'', rt_token = bo_refresh_token,
            rt_expiresAt = 1000 + 7 * 24 * 60 * 60 * 1000\<rparr>"
    by (simp add: db_get_def crm1_def ctx_of_def)
  have g: "generateTokens test_lib test_config (now_ms ?cx) (u_id ?bo) (u_email ?bo) (u_role ?bo) =
      (bo_access_token, bo_refresh_token)"
    using bo_tokens_in_second_1 [of 1500] by (simp add: ctx_of_def user_bo_def)
  have s: "storeRefreshToken (uuid_a ?cx) (now_ms ?cx) (u_id ?bo)
      bo_refresh_token (removeRefreshToken bo_refresh_token crm1) =
      crm1\<lparr>refresh_tokens :=
        [\<lparr>rt_id = ''id-3'', rt_userId = ''U2'', rt_token = bo_refresh_token,
          rt_expiresAt = 1500 + 7 * 24 * 60 * 60 * 1000\<rparr>]\<rparr>"
    by (simp add: storeRefreshToken_def removeRefreshToken_def crm1_def ctx_of_def user_bo_def
        Let_def)
  show ?thesis
    using bo_token_nonempty bo_token_verifies [of "now_ms ?cx"] t bo_active g s bo_refresh_user
    by (simp add: refreshToken_def)
qed

lemma same_second_second:
  "fst (refreshToken test_lib test_config
          (ctx_of 1800 ''1970-01-01T00:00:01.800Z'' ''id-5'' ''id-6'') (Some bo_refresh_token)
     (crm1\<lparr>refresh_tokens :=
        [\<lparr>rt_id = ''id-3'', rt_userId = ''U2'', rt_token = bo_refresh_token,
          rt_expiresAt = 1500 + 7 * 24 * 60 * 60 * 1000\<rparr>]\<rparr>)) =
   ok_reply 200 ''Token refreshed successfully''
        (Some \<lparr>ld_user = refreshUser user_bo, ld_accessToken = bo_access_token,
                ld_refreshToken = bo_refresh_token\<rparr>)"
proof -
  let ?cx = "ctx_of 1800 ''1970-01-01T00:00:01.800Z'' ''id-5'' ''id-6''"
  let ?bo = "user_bo\<lparr>u_lastLoginAt := Some ''1970-01-01T00:00:01.000Z''\<rparr>"
  let ?d = "crm1\<lparr>refresh_tokens :=
        [\<lparr>rt_id = ''id-3'', rt_userId = ''U2'', rt_token = bo_refresh_token,
          rt_expiresAt = 1500 + 7 * 24 * 60 * 60 * 1000\<rparr>]\<rparr>"
  have t: "db_get (\<lambda>r. rt_token r = bo_refresh_token \<and> rt_userId r = ''U2'' \<and>
                        rt_expiresAt r > now_ms ?cx) (refresh_tokens ?d) =
      Some \<lparr>rt_id = ''id-3'', rt_userId = ''U2'', rt_token = bo_refresh_token,
            rt_expiresAt = 1500 + 7 * 24 * 60 * 60 * 1000\<rparr>"
    by (simp add: db_get_def ctx_of_def)
  have u: "db_get (\<lambda>u. u_id u = ''U2'' \<and> u_isActive u = Some 1) (users ?d) = Some ?bo"
    using bo_active by simp
  have g: "generateTokens test_lib test_config (now_ms ?cx) (u_id ?bo) (u_email ?bo) (u_role ?bo) =
      (bo_access_token, bo_refresh_token)"
    using bo_tokens_in_second_1 [of 1800] by (simp add: ctx_of_def user_bo_def)
  show ?thesis
    using bo_token_nonempty bo_token_verifies [of "now_ms ?cx"] t u g bo_refresh_user
    by (simp add: refreshToken_def Let_def)
qed

text \<open>
  C4, at the input where the code departs from it. The signed token is a function of the
  payload, the secret, the expiry setting and the time of issue, which \<open>jsonwebtoken\<close>
  records in whole seconds (here: the stand-in library). Bo logs in at 1000 ms and
  presents the refresh token of that login at 1500 ms, in the same second. The refresh
  signs the very same token again: the row of the login is deleted, a new row with the
  same token is stored, and the refresh that presents the token once more at 1800 ms
  succeeds as well.
\<close>

theorem refresh_same_second_reuse:
  "login test_lib test_config (ctx_of 1000 ''1970-01-01T00:00:01.000Z'' ''id-1'' ''id-2'') []
     bo_login crm0 =
     (ok_reply 200 ''Login successful''
        (Some \<lparr>ld_user = userWithoutSensitiveData user_bo, ld_accessToken = bo_access_token,
                ld_refreshToken = bo_refresh_token\<rparr>),
      crm1) \<and>
   map rt_id (refresh_tokens crm1) = [''id-1''] \<and>
   fst (refreshToken test_lib test_config
          (ctx_of 1500 ''1970-01-01T00:00:01.500Z'' ''id-3'' ''id-4'') (Some bo_refresh_token) crm1) =
     ok_reply 200 ''Token refreshed successfully''
       (Some \<lparr>ld_user = refreshUser user_bo, ld_accessToken = bo_access_token,
               ld_refreshToken = bo_refresh_token\<rparr>) \<and>
   map rt_id (refresh_tokens (snd (refreshToken test_lib test_config
      (ctx_of 1500 ''1970-01-01T00:00:01.500Z'' ''id-3'' ''id-4'') (Some bo_refresh_token) crm1))) =
     [''id-3''] \<and>
   fst (refreshToken test_lib test_config
          (ctx_of 1800 ''1970-01-01T00:00:01.800Z'' ''id-5'' ''id-6'') (Some bo_refresh_token)
          (snd (refreshToken test_lib test_config
             (ctx_of 1500 ''1970-01-01T00:00:01.500Z'' ''id-3'' ''id-4'') (Some bo_refresh_token)
             crm1))) =
     ok_reply 200 ''Token refreshed successfully''
       (Some \<lparr>ld_user = refreshUser user_bo, ld_accessToken = bo_access_token,
               ld_refreshToken = bo_refresh_token\<rparr>)"
proof -
  have r0: "map rt_id (refresh_tokens crm1) = [''id-1'']"
    by (simp add: crm1_def)
  show ?thesis
    unfolding same_second_first fst_conv snd_conv same_second_second bo_login_succeeds
    using r0 by simp
qed

end
